theory Spec2Isabelle
  imports Complex_Main
begin

section \<open>Values shared by the federation core\<close>

text \<open>
  A JavaScript string is modelled as the list of its code units, so \<open>length\<close> is
  \<^verbatim>\<open>.length\<close> and \<open>take n\<close> is \<^verbatim>\<open>.substring(0, n)\<close>. A \<^verbatim>\<open>URL\<close> object is
  represented by its serialisation (\<^verbatim>\<open>href\<close>, which is also what \<^verbatim>\<open>toString()\<close> and
  string concatenation give). An optional property is an \<open>option\<close>: \<open>None\<close> is
  \<^verbatim>\<open>undefined\<close>.
\<close>

type_synonym url = string

datatype error =
    HttpError string nat
  | NetworkError
  | JsonError
  | InvalidURL
  | InvalidDate
  | MissingFields
  | SqlError string
  | ParamsError

text \<open>
  Functions and constants the sources import from modules outside the modelled files
  (the platform's \<^verbatim>\<open>URL\<close> and \<^verbatim>\<open>Date\<close> classes, the two HTML sanitizers of
  \<^verbatim>\<open>activitypub/objects\<close>, the default images of \<^verbatim>\<open>config/accounts\<close>) are
  parameters, collected in one record. \<open>new_URL s\<close> is the \<^verbatim>\<open>href\<close> of
  \<^verbatim>\<open>new URL(s)\<close>, or \<open>None\<close> where the constructor throws; \<open>new_URL_base r b\<close> is
  \<^verbatim>\<open>new URL(r, b)\<close>; \<open>toISOString s\<close> is \<^verbatim>\<open>new Date(s).toISOString()\<close>, or \<open>None\<close>
  where it throws.
\<close>

record ext =
  new_URL :: "string \<Rightarrow> url option"
  new_URL_base :: "string \<Rightarrow> string \<Rightarrow> url option"
  url_hostname :: "url \<Rightarrow> string"
  url_host :: "url \<Rightarrow> string"
  toISOString :: "string \<Rightarrow> string option"
  sanitizeContent :: "string \<Rightarrow> string"
  getTextContent :: "string \<Rightarrow> string"
  default_avatar :: string
  default_header :: string

text \<open>JavaScript truthiness of an optional string: \<^verbatim>\<open>undefined\<close> and \<^verbatim>\<open>''\<close> are falsy.\<close>

definition truthy :: "string option \<Rightarrow> bool" where
  "truthy v = (case v of None \<Rightarrow> False | Some s \<Rightarrow> s \<noteq> [])"

record image =
  img_type :: "string option"
  img_mediaType :: "string option"
  img_url :: string
  img_id :: "url option"

text \<open>
  An actor document as fetched from a remote server, and as stored in the
  \<^verbatim>\<open>properties\<close> column of the \<^verbatim>\<open>actors\<close> table (\<^verbatim>\<open>PersonProperties\<close> reads a subset
  of its fields).
\<close>

record actor_doc =
  doc_id :: "string option"
  doc_type :: "string option"
  doc_summary :: "string option"
  doc_name :: "string option"
  doc_preferredUsername :: "string option"
  doc_inbox :: "string option"
  doc_outbox :: "string option"
  doc_following :: "string option"
  doc_followers :: "string option"
  doc_icon :: "image option"
  doc_image :: "image option"
  doc_alsoKnownAs :: "string list option"

section \<open>Remote Fetcher: \<^verbatim>\<open>fetchActor\<close>\<close>

text \<open>
  The answer of \<^verbatim>\<open>fetch(url, { headers })\<close>: the request fails, or a response arrives
  with a status and a body; the body is \<open>None\<close> where \<^verbatim>\<open>res.json()\<close> throws or does
  not yield an object.
\<close>

datatype fetch_result = FetchFailed | Response nat "actor_doc option"

definition res_ok :: "nat \<Rightarrow> bool" where
  "res_ok status = (200 \<le> status \<and> status \<le> 299)"

definition opt_URL :: "ext \<Rightarrow> string option \<Rightarrow> error + url option" where
  "opt_URL x v =
     (case v of
        None \<Rightarrow> Inr None
      | Some s \<Rightarrow> (case new_URL x s of None \<Rightarrow> Inl InvalidURL | Some u \<Rightarrow> Inr (Some u)))"

definition fetchActor :: "ext \<Rightarrow> (string \<Rightarrow> fetch_result) \<Rightarrow> string \<Rightarrow> error + actor_doc" where
  "fetchActor x fetch u =
     (case fetch u of
        FetchFailed \<Rightarrow> Inl NetworkError
      | Response status body \<Rightarrow>
         (if \<not> res_ok status then Inl (HttpError u status)
          else
            (case body of
               None \<Rightarrow> Inl JsonError
             | Some actor \<Rightarrow>
                (case (case doc_id actor of None \<Rightarrow> None | Some i \<Rightarrow> new_URL x i) of
                   None \<Rightarrow> Inl InvalidURL
                 | Some i \<Rightarrow>
                    (let actor = actor\<lparr>doc_id := Some i\<rparr>;
                         actor =
                           (if truthy (doc_summary actor) then
                              (let s = sanitizeContent x (the (doc_summary actor)) in
                               actor\<lparr>doc_summary :=
                                       Some (if length s > 500 then take 500 s else s)\<rparr>)
                            else actor);
                         actor =
                           (if truthy (doc_name actor) then
                              (let s = getTextContent x (the (doc_name actor)) in
                               actor\<lparr>doc_name := Some (if length s > 30 then take 30 s else s)\<rparr>)
                            else actor);
                         actor =
                           (if truthy (doc_preferredUsername actor) then
                              (let s = getTextContent x (the (doc_preferredUsername actor)) in
                               actor\<lparr>doc_preferredUsername :=
                                       Some (if length s > 30 then take 30 s else s)\<rparr>)
                            else actor)
                     in (case opt_URL x (doc_inbox actor) of
                           Inl e \<Rightarrow> Inl e
                         | Inr inbox \<Rightarrow>
                        (case opt_URL x (doc_following actor) of
                           Inl e \<Rightarrow> Inl e
                         | Inr following \<Rightarrow>
                        (case opt_URL x (doc_followers actor) of
                           Inl e \<Rightarrow> Inl e
                         | Inr followers \<Rightarrow>
                        (case opt_URL x (doc_outbox actor) of
                           Inl e \<Rightarrow> Inl e
                         | Inr outbox \<Rightarrow>
                             Inr (actor\<lparr>doc_inbox := inbox, doc_following := following,
                                        doc_followers := followers,
                                        doc_outbox := outbox\<rparr>))))))))))"

section \<open>Actors: rows of the \<^verbatim>\<open>actors\<close> table and \<^verbatim>\<open>actorFromRow\<close>\<close>

text \<open>
  A row of \<^verbatim>\<open>actors\<close> with the columns the modelled code reads; \<^verbatim>\<open>NULL\<close> is \<open>None\<close>.
  The \<^verbatim>\<open>properties\<close> column is kept as the document it holds, so the two branches of
  \<^verbatim>\<open>actorFromRow\<close> on its representation (an object, or a string for \<^verbatim>\<open>JSON.parse\<close>)
  are one. A sequential identifier is the triple the allocator builds it from.
\<close>

datatype mastodon_id = MastodonId string string nat

record actor_row =
  row_id :: string
  row_type :: string
  row_cdate :: string
  row_email :: "string option"
  row_pubkey :: "string option"
  row_properties :: actor_doc
  row_is_admin :: "int option"
  row_mastodon_id :: "mastodon_id option"
  row_original_actor_id :: "string option"

record public_key =
  pk_id :: string
  publicKeyPem :: string

record actor =
  a_type :: string
  a_id :: url
  a_url :: url
  a_published :: string
  a_icon :: image
  a_image :: image
  a_summary :: "string option"
  a_name :: "string option"
  a_preferredUsername :: "string option"
  a_inbox :: "string option"
  a_outbox :: "string option"
  a_following :: "string option"
  a_followers :: "string option"
  a_discoverable :: bool
  a_publicKey :: "public_key option"
  a_alsoKnownAs :: "string list option"
  a_isAdmin :: bool
  a_mastodonId :: "mastodon_id option"

text \<open>
  \<^verbatim>\<open>properties.icon ?? { type: 'Image', mediaType: 'image/jpeg', url: new URL(d),
  id: new URL(row.id + suffix) }\<close>: the default is built, and its two \<^verbatim>\<open>URL\<close>s parsed,
  only when the property is missing.
\<close>

definition image_or_default :: "ext \<Rightarrow> image option \<Rightarrow> string \<Rightarrow> string \<Rightarrow> error + image" where
  "image_or_default x v d i =
     (case v of
        Some im \<Rightarrow> Inr im
      | None \<Rightarrow>
         (case new_URL x d of
            None \<Rightarrow> Inl InvalidURL
          | Some u \<Rightarrow>
             (case new_URL x i of
                None \<Rightarrow> Inl InvalidURL
              | Some j \<Rightarrow>
                  Inr \<lparr>img_type = Some ''Image'', img_mediaType = Some ''image/jpeg'',
                       img_url = u, img_id = Some j\<rparr>)))"

definition or_undefined :: "string option \<Rightarrow> string" where
  "or_undefined v = (case v of None \<Rightarrow> ''undefined'' | Some s \<Rightarrow> s)"

definition actorFromRow :: "ext \<Rightarrow> actor_row \<Rightarrow> error + actor" where
  "actorFromRow x row =
     (let properties = row_properties row in
      (case image_or_default x (doc_icon properties) (default_avatar x) (row_id row @ ''#icon'') of
        Inl e \<Rightarrow> Inl e
      | Inr icon \<Rightarrow>
      (case image_or_default x (doc_image properties) (default_header x) (row_id row @ ''#image'') of
        Inl e \<Rightarrow> Inl e
      | Inr img \<Rightarrow>
        (let preferredUsername = doc_preferredUsername properties;
             name = (case doc_name properties of None \<Rightarrow> preferredUsername | Some n \<Rightarrow> Some n);
             publicKey =
               (case row_pubkey row of
                  None \<Rightarrow> None
                | Some k \<Rightarrow> Some \<lparr>pk_id = row_id row @ ''#main-key'', publicKeyPem = k\<rparr>)
         in (case new_URL x (row_id row) of
              None \<Rightarrow> Inl InvalidURL
            | Some i \<Rightarrow>
               (case (if truthy (row_original_actor_id row)
                      then map_option (url_hostname x)
                             (new_URL x (the (row_original_actor_id row)))
                      else Some (url_hostname x i)) of
                  None \<Rightarrow> Inl InvalidURL
                | Some domain \<Rightarrow>
                  (let properties =
                         (if doc_inbox properties = None
                          then properties\<lparr>doc_inbox := Some (i @ ''/inbox'')\<rparr> else properties);
                       properties =
                         (if doc_outbox properties = None
                          then properties\<lparr>doc_outbox := Some (i @ ''/outbox'')\<rparr> else properties);
                       properties =
                         (if doc_following properties = None
                          then properties\<lparr>doc_following := Some (i @ ''/following'')\<rparr>
                          else properties);
                       properties =
                         (if doc_followers properties = None
                          then properties\<lparr>doc_followers := Some (i @ ''/followers'')\<rparr>
                          else properties)
                   in (case new_URL_base x (''@'' @ or_undefined preferredUsername)
                             (''https://'' @ domain) of
                        None \<Rightarrow> Inl InvalidURL
                      | Some u \<Rightarrow>
                         (case toISOString x (row_cdate row) of
                            None \<Rightarrow> Inl InvalidDate
                          | Some published \<Rightarrow>
                              Inr \<lparr>a_type = row_type row,
                                   a_id = i,
                                   a_url = u,
                                   a_published = published,
                                   a_icon = icon,
                                   a_image = img,
                                   a_summary = doc_summary properties,
                                   a_name = name,
                                   a_preferredUsername = preferredUsername,
                                   a_inbox = doc_inbox properties,
                                   a_outbox = doc_outbox properties,
                                   a_following = doc_following properties,
                                   a_followers = doc_followers properties,
                                   a_discoverable = True,
                                   a_publicKey = publicKey,
                                   a_alsoKnownAs = doc_alsoKnownAs properties,
                                   a_isAdmin = (row_is_admin row = Some 1),
                                   a_mastodonId = row_mastodon_id row\<rparr>)))))))))"

section \<open>Storage\<close>

text \<open>
  The relational store is an external collaborator; the model keeps each table as the
  list of its rows in insertion order. \<open>console\<close> collects the \<^verbatim>\<open>console.warn\<close>
  messages, and \<open>journal\<close> records the statements that write to the store (and the push
  request) in the order in which the program issues them.
\<close>

record ap_object =
  obj_id :: url
  obj_type :: string
  obj_originalActorId :: "string option"

record like_row =
  like_actor_id :: string
  like_object_id :: string

record notification_row =
  notif_id :: nat
  notif_type :: string
  notif_actor_id :: string
  notif_from_actor_id :: string
  notif_object_id :: string

datatype event =
    InsertActor string
  | UpsertPeer string
  | InsertNotification nat
  | InsertLike string string
  | PushRequest nat

record state =
  actors :: "actor_row list"
  peers :: "string list"
  objects :: "ap_object list"
  actor_favourites :: "like_row list"
  actor_notifications :: "notification_row list"
  id_sequences :: "((string \<times> string) \<times> nat) list"
  console :: "string list"
  journal :: "event list"

text \<open>
  Modelled from the spec: \<^verbatim>\<open>generateMastodonId\<close> (\<^verbatim>\<open>utils/id\<close>) is missing from the
  sources. Section 4.1 describes an allocator that embeds a monotonic counter keyed by
  the entity kind and the timestamp bucket; the identifier is kept as that triple.
\<close>

definition generateMastodonId :: "state \<Rightarrow> string \<Rightarrow> string \<Rightarrow> mastodon_id \<times> state" where
  "generateMastodonId s table t =
     (let n = (case map_of (id_sequences s) (table, t) of None \<Rightarrow> 0 | Some c \<Rightarrow> c) + 1
      in (MastodonId table t n,
          s\<lparr>id_sequences :=
               ((table, t), n) # filter (\<lambda>p. fst p \<noteq> (table, t)) (id_sequences s)\<rparr>))"

text \<open>
  Modelled from the spec: \<^verbatim>\<open>addPeer\<close> (\<^verbatim>\<open>activitypub/peers\<close>) is missing from the
  sources. Section 4.2 calls it an idempotent upsert of the actor's origin host.
\<close>

definition addPeer :: "state \<Rightarrow> string \<Rightarrow> state" where
  "addPeer s domain =
     (if domain \<in> set (peers s) then s\<lparr>journal := journal s @ [UpsertPeer domain]\<rparr>
      else s\<lparr>peers := peers s @ [domain], journal := journal s @ [UpsertPeer domain]\<rparr>)"

text \<open>
  Modelled from the spec: the schema of \<^verbatim>\<open>actors\<close> is missing from the sources.
  Sections 5 and 6 put a uniqueness constraint on the canonical identifier, enforced by
  the store. The statement of \<^verbatim>\<open>getAndCache\<close>,
  \<^verbatim>\<open>INSERT INTO actors (id, type, cdate, properties, mastodon_id) VALUES (...)\<close>, has no
  conflict clause, so it fails on an identifier that is already there.
\<close>

definition insert_actor :: "actor_row \<Rightarrow> state \<Rightarrow> error + state" where
  "insert_actor row s =
     (if row_id row \<in> row_id ` set (actors s)
      then Inl (SqlError ''UNIQUE constraint failed: actors.id'')
      else Inr (s\<lparr>actors := actors s @ [row],
                  journal := journal s @ [InsertActor (row_id row)]\<rparr>))"

section \<open>Actor Cache: \<^verbatim>\<open>getActorById\<close>, \<^verbatim>\<open>setMastodonId\<close>, \<^verbatim>\<open>getAndCache\<close>\<close>

definition setMastodonId :: "state \<Rightarrow> string \<Rightarrow> string \<Rightarrow> mastodon_id \<times> state" where
  "setMastodonId s actorId cdate =
     (let (mastodonId, s1) = generateMastodonId s ''actors'' cdate
      in (mastodonId,
          s1\<lparr>actors :=
               map (\<lambda>r. if row_id r = actorId then r\<lparr>row_mastodon_id := Some mastodonId\<rparr> else r)
                 (actors s1)\<rparr>))"

definition getActorById :: "ext \<Rightarrow> state \<Rightarrow> url \<Rightarrow> (error + actor option) \<times> state" where
  "getActorById x s i =
     (case filter (\<lambda>r. row_id r = i) (actors s) of
        [] \<Rightarrow> (Inr None, s)
      | r # _ \<Rightarrow>
         (case row_mastodon_id r of
            Some m \<Rightarrow> (map_sum id Some (actorFromRow x r), s)
          | None \<Rightarrow>
             (let (m, s1) = setMastodonId s (row_id r) (row_cdate r)
              in (map_sum id Some (actorFromRow x (r\<lparr>row_mastodon_id := Some m\<rparr>)), s1))))"

definition PERSON :: string where
  "PERSON = ''Person''"

definition getPersonByEmail :: "ext \<Rightarrow> state \<Rightarrow> string \<Rightarrow> (error + actor option) \<times> state" where
  "getPersonByEmail x s email =
     (case filter (\<lambda>r. row_email r = Some email \<and> row_type r = PERSON) (actors s) of
        [] \<Rightarrow> (Inr None, s)
      | r # _ \<Rightarrow>
         (case row_mastodon_id r of
            Some m \<Rightarrow> (map_sum id Some (actorFromRow x r), s)
          | None \<Rightarrow>
             (let (m, s1) = setMastodonId s (row_id r) (row_cdate r)
              in (map_sum id Some (actorFromRow x (r\<lparr>row_mastodon_id := Some m\<rparr>)), s1))))"

text \<open>
  \<^verbatim>\<open>getAndCache\<close> is a lookup followed, when the lookup finds nothing, by the rest of
  the function. Each \<^verbatim>\<open>await\<close> is a point where another call can run, so the rest is a
  definition of its own: \<open>getAndCache_uncached\<close> is lines 115 to 149, from \<^verbatim>\<open>fetchActor\<close>
  to the result, run on the store as it is when the call goes on. \<open>now\<close> is
  \<^verbatim>\<open>new Date()\<close>, as the string \<^verbatim>\<open>now.toISOString()\<close>. A \<^verbatim>\<open>URL\<close> object is always
  truthy, so \<^verbatim>\<open>!actor.id\<close> can only hold for a missing identifier.
\<close>

definition getAndCache_uncached ::
  "ext \<Rightarrow> (string \<Rightarrow> fetch_result) \<Rightarrow> string \<Rightarrow> url \<Rightarrow> state \<Rightarrow> (error + actor) \<times> state" where
  "getAndCache_uncached x fetch now u s1 =
     (case fetchActor x fetch u of
        Inl e \<Rightarrow> (Inl e, s1)
      | Inr actor \<Rightarrow>
         if \<not> truthy (doc_type actor) \<or> doc_id actor = None then (Inl MissingFields, s1)
         else
           (let (mastodonId, s2) = generateMastodonId s1 ''actors'' now;
                row = \<lparr>row_id = the (doc_id actor),
                       row_type = the (doc_type actor),
                       row_cdate = now,
                       row_email = None,
                       row_pubkey = None,
                       row_properties = actor,
                       row_is_admin = None,
                       row_mastodon_id = Some mastodonId,
                       row_original_actor_id = None\<rparr>
            in case insert_actor row s2 of
                 Inl e \<Rightarrow> (Inl e, s2)
               | Inr s3 \<Rightarrow>
                  (let s4 = addPeer s3 (url_host x (the (doc_id actor)))
                   in (actorFromRow x row, s4))))"

definition getAndCache ::
  "ext \<Rightarrow> (string \<Rightarrow> fetch_result) \<Rightarrow> string \<Rightarrow> url \<Rightarrow> state \<Rightarrow> (error + actor) \<times> state" where
  "getAndCache x fetch now u s =
     (case getActorById x s u of
        (Inl e, s1) \<Rightarrow> (Inl e, s1)
      | (Inr (Some a), s1) \<Rightarrow> (Inr a, s1)
      | (Inr None, s1) \<Rightarrow> getAndCache_uncached x fetch now u s1)"

text \<open>
  Two calls of \<^verbatim>\<open>getAndCache\<close> for the same identifier that overlap: both lookups run
  before either call goes on, then the first call runs to its end, then the second. The
  result is the pair of what the two calls return, and the store they leave.
\<close>

definition getAndCache_overlapping ::
  "ext \<Rightarrow> (string \<Rightarrow> fetch_result) \<Rightarrow> string \<Rightarrow> (string \<Rightarrow> fetch_result) \<Rightarrow> string \<Rightarrow> url
     \<Rightarrow> state \<Rightarrow> ((error + actor) \<times> (error + actor)) \<times> state" where
  "getAndCache_overlapping x fetch1 now1 fetch2 now2 u s =
     (let (found1, sa) = getActorById x s u;
          (found2, sb) = getActorById x sa u;
          (r1, sc) = (case found1 of
                        Inl e \<Rightarrow> (Inl e, sb)
                      | Inr (Some a) \<Rightarrow> (Inr a, sb)
                      | Inr None \<Rightarrow> getAndCache_uncached x fetch1 now1 u sb);
          (r2, sd) = (case found2 of
                        Inl e \<Rightarrow> (Inl e, sc)
                      | Inr (Some a) \<Rightarrow> (Inr a, sc)
                      | Inr None \<Rightarrow> getAndCache_uncached x fetch2 now2 u sc)
      in ((r1, r2), sd))"

text \<open>
  A caller that resolves the same identifier once for every element of \<open>calls\<close>, one
  call after the other; each element gives the remote world and the clock of its call.
\<close>

fun resolve_all ::
  "ext \<Rightarrow> ((string \<Rightarrow> fetch_result) \<times> string) list \<Rightarrow> url \<Rightarrow> state
     \<Rightarrow> (error + actor) list \<times> state" where
  "resolve_all x [] u s = ([], s)"
| "resolve_all x ((fetch, now) # calls) u s =
     (let (r, s1) = getAndCache x fetch now u s;
          (rs, s2) = resolve_all x calls u s1
      in (r # rs, s2))"

text \<open>
  \<open>u\<close> is canonical for a remote world when the document served at \<open>u\<close>, if it
  declares an identifier, declares \<open>u\<close> itself.
\<close>

definition canonical :: "ext \<Rightarrow> (string \<Rightarrow> fetch_result) \<Rightarrow> url \<Rightarrow> bool" where
  "canonical x fetch u =
     (case fetch u of
        Response status (Some d) \<Rightarrow>
          (case doc_id d of None \<Rightarrow> True | Some i \<Rightarrow> new_URL x i = Some u)
      | _ \<Rightarrow> True)"

text \<open>
  The actor \<open>a\<close> is cached under \<open>i\<close>: the first row with that identifier has its
  sequential identifier and converts to \<open>a\<close>.
\<close>

definition cached :: "ext \<Rightarrow> state \<Rightarrow> url \<Rightarrow> actor \<Rightarrow> bool" where
  "cached x s i a =
     (case filter (\<lambda>r. row_id r = i) (actors s) of
        [] \<Rightarrow> False
      | r # _ \<Rightarrow> row_mastodon_id r \<noteq> None \<and> actorFromRow x r = Inr a)"

definition endpoints_defined :: "actor \<Rightarrow> bool" where
  "endpoints_defined a =
     (a_inbox a \<noteq> None \<and> a_outbox a \<noteq> None \<and> a_following a \<noteq> None \<and> a_followers a \<noteq> None)"

section \<open>Activity Dispatcher: \<^verbatim>\<open>handleLikeActivity\<close>\<close>

text \<open>
  A Like activity, with \<^verbatim>\<open>getAPId\<close> already applied to its \<^verbatim>\<open>actor\<close> and \<^verbatim>\<open>object\<close>
  references.
\<close>

record like_activity =
  act_actor :: url
  act_object :: url

text \<open>
  Modelled from the spec: \<^verbatim>\<open>getObjectById\<close> (\<^verbatim>\<open>activitypub/objects\<close>) is missing from
  the sources. Section 4.3 describes a cache of objects keyed by canonical identifier that
  records the original authoring actor; the lookup reads it and changes nothing.
\<close>

definition getObjectById :: "state \<Rightarrow> url \<Rightarrow> ap_object option" where
  "getObjectById s i = find (\<lambda>ob. obj_id ob = i) (objects s)"

text \<open>
  Modelled from the spec: \<^verbatim>\<open>createNotification\<close> (\<^verbatim>\<open>mastodon/notification\<close>) is
  missing from the sources. Section 4.5: it persists the notification row (kind,
  recipient, originating actor, subject) and returns the row's identifier.
\<close>

definition createNotification ::
  "state \<Rightarrow> string \<Rightarrow> actor \<Rightarrow> actor \<Rightarrow> ap_object \<Rightarrow> nat \<times> state" where
  "createNotification s kind recipient fromActor ob =
     (let n = Suc (length (actor_notifications s))
      in (n, s\<lparr>actor_notifications :=
                  actor_notifications s @
                    [\<lparr>notif_id = n, notif_type = kind, notif_actor_id = a_id recipient,
                      notif_from_actor_id = a_id fromActor, notif_object_id = obj_id ob\<rparr>],
                journal := journal s @ [InsertNotification n]\<rparr>))"

text \<open>
  Modelled from the spec: \<^verbatim>\<open>insertLike\<close> (\<^verbatim>\<open>mastodon/like\<close>) is missing from the
  sources. Section 4.4: it inserts a Like edge from the delivering actor to the target
  object, and the insertion is a no-op if the edge already exists.
\<close>

definition insertLike :: "state \<Rightarrow> actor \<Rightarrow> ap_object \<Rightarrow> state" where
  "insertLike s fromActor ob =
     (let edge = \<lparr>like_actor_id = a_id fromActor, like_object_id = obj_id ob\<rparr>;
          s1 = s\<lparr>journal := journal s @ [InsertLike (a_id fromActor) (obj_id ob)]\<rparr>
      in if edge \<in> set (actor_favourites s) then s1
         else s1\<lparr>actor_favourites := actor_favourites s @ [edge]\<rparr>)"

text \<open>
  Modelled from the spec: \<^verbatim>\<open>sendLikeNotification\<close> (\<^verbatim>\<open>mastodon/notification\<close>) is
  missing from the sources. Section 4.5: the delivery request is best effort, with its own
  error handling and logging; a delivery failure is logged, touches no stored row and is
  not passed on. \<open>push\<close> tells whether the push transport accepts the request.
\<close>

definition sendLikeNotification ::
  "bool \<Rightarrow> state \<Rightarrow> actor \<Rightarrow> actor \<Rightarrow> nat \<Rightarrow> (error + unit) \<times> state" where
  "sendLikeNotification push s fromActor targetActor notifId =
     (let s1 = s\<lparr>journal := journal s @ [PushRequest notifId]\<rparr>
      in if push then (Inr (), s1)
         else (Inr (), s1\<lparr>console := console s1 @ [''failed to send push notification'']\<rparr>))"

definition warn :: "string \<Rightarrow> state \<Rightarrow> state" where
  "warn msg s = s\<lparr>console := console s @ [msg]\<rparr>"

text \<open>
  \<^verbatim>\<open>Promise.all([createNotification(...), insertLike(...)])\<close> calls its two operands in
  the order of the array and then waits for both. This definition takes the run in which
  the store completes the two statements in that order; \<open>handleLikeActivity_in_order\<close>
  below leaves the order open. \<^verbatim>\<open>sendLikeNotification\<close> is awaited with no handler around
  it, so an error it raised would leave \<^verbatim>\<open>handleLikeActivity\<close> too.
\<close>

definition handleLikeActivity ::
  "ext \<Rightarrow> (string \<Rightarrow> fetch_result) \<Rightarrow> string \<Rightarrow> bool \<Rightarrow> like_activity \<Rightarrow> state
     \<Rightarrow> (error + unit) \<times> state" where
  "handleLikeActivity x fetch now push activity s =
     (let objectId = act_object activity;
          actorId = act_actor activity
      in case getObjectById s objectId of
           None \<Rightarrow> (Inr (), warn ''unknown object'' s)
         | Some ob \<Rightarrow>
            if \<not> truthy (obj_originalActorId ob) then (Inr (), warn ''unknown object'' s)
            else
              (case getAndCache x fetch now actorId s of
                 (Inl e, s1) \<Rightarrow> (Inl e, s1)
               | (Inr fromActor, s1) \<Rightarrow>
                  (case new_URL x (the (obj_originalActorId ob)) of
                     None \<Rightarrow> (Inl InvalidURL, s1)
                   | Some t \<Rightarrow>
                      (case getActorById x s1 t of
                         (Inl e, s2) \<Rightarrow> (Inl e, s2)
                       | (Inr None, s2) \<Rightarrow> (Inr (), warn ''object actor not found'' s2)
                       | (Inr (Some targetActor), s2) \<Rightarrow>
                          (let (notifId, s3) =
                                 createNotification s2 ''favourite'' targetActor fromActor ob;
                               s4 = insertLike s3 fromActor ob
                           in case sendLikeNotification push s4 fromActor targetActor notifId of
                                (Inl e, s5) \<Rightarrow> (Inl e, s5)
                              | (Inr u, s5) \<Rightarrow> (Inr (), s5))))))"

text \<open>
  The same handler with the order left open in which the store completes the two
  statements of \<^verbatim>\<open>Promise.all\<close>: both are in flight at once, and nothing in
  \<^verbatim>\<open>handleLikeActivity\<close> makes one wait for the other. \<open>notification_first\<close> tells
  which of the two the store completes first; \<^verbatim>\<open>sendLikeNotification\<close> is called when
  both are done. \<open>handleLikeActivity\<close> above is the case \<open>notification_first = True\<close>.
\<close>

definition handleLikeActivity_in_order ::
  "bool \<Rightarrow> ext \<Rightarrow> (string \<Rightarrow> fetch_result) \<Rightarrow> string \<Rightarrow> bool \<Rightarrow> like_activity \<Rightarrow> state
     \<Rightarrow> (error + unit) \<times> state" where
  "handleLikeActivity_in_order notification_first x fetch now push activity s =
     (let objectId = act_object activity;
          actorId = act_actor activity
      in case getObjectById s objectId of
           None \<Rightarrow> (Inr (), warn ''unknown object'' s)
         | Some ob \<Rightarrow>
            if \<not> truthy (obj_originalActorId ob) then (Inr (), warn ''unknown object'' s)
            else
              (case getAndCache x fetch now actorId s of
                 (Inl e, s1) \<Rightarrow> (Inl e, s1)
               | (Inr fromActor, s1) \<Rightarrow>
                  (case new_URL x (the (obj_originalActorId ob)) of
                     None \<Rightarrow> (Inl InvalidURL, s1)
                   | Some t \<Rightarrow>
                      (case getActorById x s1 t of
                         (Inl e, s2) \<Rightarrow> (Inl e, s2)
                       | (Inr None, s2) \<Rightarrow> (Inr (), warn ''object actor not found'' s2)
                       | (Inr (Some targetActor), s2) \<Rightarrow>
                          (let (notifId, s4) =
                                 (if notification_first then
                                    (let (n, s3) = createNotification s2 ''favourite''
                                                     targetActor fromActor ob
                                     in (n, insertLike s3 fromActor ob))
                                  else
                                    createNotification (insertLike s2 fromActor ob)
                                      ''favourite'' targetActor fromActor ob)
                           in case sendLikeNotification push s4 fromActor targetActor notifId of
                                (Inl e, s5) \<Rightarrow> (Inl e, s5)
                              | (Inr u, s5) \<Rightarrow> (Inr (), s5))))))"

text \<open>
  The activity gets past validation: its object is cached with a known original author,
  the delivering actor resolves to \<open>fromActor\<close>, and the original author is found as
  \<open>targetActor\<close>, which leaves the store in \<open>s2\<close>.
\<close>

definition like_resolves ::
  "ext \<Rightarrow> (string \<Rightarrow> fetch_result) \<Rightarrow> string \<Rightarrow> like_activity \<Rightarrow> state
     \<Rightarrow> ap_object \<Rightarrow> actor \<Rightarrow> actor \<Rightarrow> state \<Rightarrow> bool" where
  "like_resolves x fetch now activity s ob fromActor targetActor s2 =
     (getObjectById s (act_object activity) = Some ob \<and>
      truthy (obj_originalActorId ob) \<and>
      fst (getAndCache x fetch now (act_actor activity) s) = Inr fromActor \<and>
      (case new_URL x (the (obj_originalActorId ob)) of
         None \<Rightarrow> False
       | Some t \<Rightarrow>
           getActorById x (snd (getAndCache x fetch now (act_actor activity) s)) t =
             (Inr (Some targetActor), s2)))"

text \<open>The row \<^verbatim>\<open>createNotification\<close> writes for a Like, and the edge \<^verbatim>\<open>insertLike\<close> writes.\<close>

definition like_notification :: "state \<Rightarrow> actor \<Rightarrow> actor \<Rightarrow> ap_object \<Rightarrow> notification_row" where
  "like_notification s targetActor fromActor ob =
     \<lparr>notif_id = Suc (length (actor_notifications s)), notif_type = ''favourite'',
      notif_actor_id = a_id targetActor, notif_from_actor_id = a_id fromActor,
      notif_object_id = obj_id ob\<rparr>"

definition like_edge :: "actor \<Rightarrow> ap_object \<Rightarrow> like_row" where
  "like_edge fromActor ob = \<lparr>like_actor_id = a_id fromActor, like_object_id = obj_id ob\<rparr>"

text \<open>In the journal \<open>js\<close>, \<open>b\<close> is issued after the first \<open>a\<close>.\<close>

definition precedes :: "event \<Rightarrow> event \<Rightarrow> event list \<Rightarrow> bool" where
  "precedes a b js = (b \<in> set (drop 1 (dropWhile (\<lambda>e. e \<noteq> a) js)))"

section \<open>Collection Paginator: the page size of the followers and statuses endpoints\<close>

subsection \<open>\<^verbatim>\<open>api/v1/accounts/[id]/followers\<close>\<close>

text \<open>
  The value of the \<^verbatim>\<open>limit\<close> parameter as the schema receives it: missing, a finite
  number, or anything else (\<^verbatim>\<open>NaN\<close>, an infinity, a value that is not a number).
\<close>

datatype jsvalue = JUndefined | JNumber rat | JOther

text \<open>
  \<^verbatim>\<open>z.object({ limit: z.number().int().min(1).max(80).default(40) })\<close>: a missing value
  takes the default; a number is checked, never changed. The result is the \<^verbatim>\<open>limit\<close> of
  the parsed parameters, or \<open>None\<close> when the parse does not succeed.
\<close>

definition schema :: "jsvalue \<Rightarrow> int option" where
  "schema v =
     (case v of
        JUndefined \<Rightarrow> Some 40
      | JNumber r \<Rightarrow> if r = of_int \<lfloor>r\<rfloor> \<and> 1 \<le> r \<and> r \<le> 80 then Some \<lfloor>r\<rfloor> else None
      | JOther \<Rightarrow> None)"

text \<open>
  \<^verbatim>\<open>onRequestGet\<close>, \<^verbatim>\<open>handleRequest\<close> and \<^verbatim>\<open>get\<close> for an account that exists:
  \<^verbatim>\<open>readParams(request, schema)\<close>, \<^verbatim>\<open>throw new Error('failed to read params')\<close> when the
  result is not a success, then the followers are read with \<^verbatim>\<open>params.limit\<close>. \<open>limit\<close>
  is the parameter as \<^verbatim>\<open>readParams\<close> (missing from the sources) hands it to the schema.
  \<^verbatim>\<open>getFollowerIds\<close> and \<^verbatim>\<open>getFollowers\<close> are missing from the sources too, and are a
  parameter: \<open>getFollowerIds l\<close> is the response built from the followers read with the
  limit \<open>l\<close>.
\<close>

definition onRequestGet :: "(int \<Rightarrow> 'a) \<Rightarrow> jsvalue \<Rightarrow> error + 'a" where
  "onRequestGet getFollowerIds limit =
     (case schema limit of
        None \<Rightarrow> Inl ParamsError
      | Some l \<Rightarrow> Inr (getFollowerIds l))"

subsection \<open>\<^verbatim>\<open>api/v1/accounts/[id]/statuses\<close>\<close>

text \<open>
  The numbers \<^verbatim>\<open>Number.parseInt\<close> can return: \<^verbatim>\<open>NaN\<close>, an integer (\<^verbatim>\<open>-0\<close> is
  \<open>Num 0\<close>) or an infinity. \<^verbatim>\<open>Number.parseInt\<close> itself belongs to the platform and is a
  parameter of the model.
\<close>

datatype jsnumber = NaN | Num int | PosInfinity | NegInfinity

definition Math_abs :: "jsnumber \<Rightarrow> jsnumber" where
  "Math_abs v =
     (case v of
        NaN \<Rightarrow> NaN
      | Num n \<Rightarrow> Num \<bar>n\<bar>
      | PosInfinity \<Rightarrow> PosInfinity
      | NegInfinity \<Rightarrow> PosInfinity)"

definition DEFAULT_LIMIT :: int where
  "DEFAULT_LIMIT = 20"

text \<open>
  \<^verbatim>\<open>Math.abs(Number.parseInt(url.searchParams.get('limit') ?? '0')) || DEFAULT_LIMIT\<close>:
  among numbers, \<^verbatim>\<open>NaN\<close> and \<^verbatim>\<open>0\<close> are the falsy ones. \<open>p\<close> is the \<^verbatim>\<open>limit\<close> query
  parameter, \<open>None\<close> when the request has none. The value is the \<^verbatim>\<open>limit\<close> that
  \<^verbatim>\<open>handleRequest\<close> hands to \<^verbatim>\<open>getLocalStatuses\<close> and \<^verbatim>\<open>getRemoteStatuses\<close>.
\<close>

definition handleRequest_limit :: "(string \<Rightarrow> jsnumber) \<Rightarrow> string option \<Rightarrow> jsnumber" where
  "handleRequest_limit parseInt p =
     (let limit = Math_abs (parseInt (case p of None \<Rightarrow> ''0'' | Some v \<Rightarrow> v))
      in if limit = NaN \<or> limit = Num 0 then Num DEFAULT_LIMIT else limit)"

section \<open>A sample instance of the external functions, for the examples\<close>

text \<open>
  A small stand-in for the platform: a string is accepted as a URL when it starts with
  \<^verbatim>\<open>https://\<close> and is kept as it is; the host is what follows up to the next slash;
  every non-empty date string is taken to be in ISO form already; the sanitizers leave
  plain text alone.
\<close>

definition sample_ext :: ext where
  "sample_ext =
     \<lparr>new_URL = (\<lambda>s. if take 8 s = ''https://'' \<and> 8 < length s then Some s else None),
      new_URL_base = (\<lambda>r b. if take 8 b = ''https://'' \<and> 8 < length b
                              then Some (b @ ''/'' @ r) else None),
      url_hostname = (\<lambda>u. takeWhile (\<lambda>c. c \<noteq> CHR ''/'') (drop 8 u)),
      url_host = (\<lambda>u. takeWhile (\<lambda>c. c \<noteq> CHR ''/'') (drop 8 u)),
      toISOString = (\<lambda>d. if d = [] then None else Some d),
      sanitizeContent = (\<lambda>s. s),
      getTextContent = (\<lambda>s. s),
      default_avatar = ''https://example.com/avatar.jpg'',
      default_header = ''https://example.com/header.jpg''\<rparr>"

text \<open>What \<^verbatim>\<open>Number.parseInt\<close> returns for the four strings of the examples.\<close>

definition sample_parseInt :: "string \<Rightarrow> jsnumber" where
  "sample_parseInt q =
     (if q = ''100'' then Num 100
      else if q = ''-30'' then Num (- 30)
      else if q = ''0'' then Num 0
      else NaN)"

definition empty_doc :: actor_doc where
  "empty_doc =
     \<lparr>doc_id = None, doc_type = None, doc_summary = None, doc_name = None,
      doc_preferredUsername = None, doc_inbox = None, doc_outbox = None,
      doc_following = None, doc_followers = None, doc_icon = None, doc_image = None,
      doc_alsoKnownAs = None\<rparr>"

definition empty_state :: state where
  "empty_state =
     \<lparr>actors = [], peers = [], objects = [], actor_favourites = [],
      actor_notifications = [], id_sequences = [], console = [], journal = []\<rparr>"

definition alice_url :: url where
  "alice_url = ''https://social.example/ap/users/alice''"

definition bob_url :: url where
  "bob_url = ''https://remote.example/users/bob''"

definition note_url :: url where
  "note_url = ''https://social.example/ap/o/1''"

definition alice_row :: actor_row where
  "alice_row =
     \<lparr>row_id = alice_url, row_type = ''Person'', row_cdate = ''2023-01-01T00:00:00.000Z'',
      row_email = Some ''alice@social.example'', row_pubkey = None,
      row_properties = empty_doc\<lparr>doc_preferredUsername := Some ''alice''\<rparr>,
      row_is_admin = None,
      row_mastodon_id = Some (MastodonId ''actors'' ''2023-01-01T00:00:00.000Z'' 1),
      row_original_actor_id = None\<rparr>"

definition bob_doc :: actor_doc where
  "bob_doc =
     empty_doc\<lparr>doc_id := Some bob_url, doc_type := Some ''Person'',
               doc_preferredUsername := Some ''bob''\<rparr>"

text \<open>A remote world that serves Bob's actor document and nothing else.\<close>

definition sample_fetch :: "string \<Rightarrow> fetch_result" where
  "sample_fetch u = (if u = bob_url then Response 200 (Some bob_doc) else Response 404 None)"

definition sample_note :: ap_object where
  "sample_note = \<lparr>obj_id = note_url, obj_type = ''Note'', obj_originalActorId = Some alice_url\<rparr>"

text \<open>A store in which Alice is cached and is the original author of one note.\<close>

definition like_state :: state where
  "like_state =
     empty_state\<lparr>actors := [alice_row],
                 objects := [sample_note]\<rparr>"

definition sample_like :: like_activity where
  "sample_like = \<lparr>act_actor = bob_url, act_object = note_url\<rparr>"

definition sample_now :: string where
  "sample_now = ''2023-02-02T00:00:00.000Z''"

text \<open>A document whose summary, name and username are longer than the limits.\<close>

definition long_doc :: actor_doc where
  "long_doc =
     empty_doc\<lparr>doc_id := Some bob_url, doc_type := Some ''Person'',
               doc_summary := Some (replicate 600 (CHR ''s'')),
               doc_name := Some (replicate 31 (CHR ''n'')),
               doc_preferredUsername := Some (replicate 40 (CHR ''u''))\<rparr>"

text \<open>Bob's row and actor as the first resolution at \<open>sample_now\<close> produces them.\<close>

definition bob_row :: actor_row where
  "bob_row =
     \<lparr>row_id = bob_url, row_type = ''Person'', row_cdate = sample_now,
      row_email = None, row_pubkey = None, row_properties = bob_doc,
      row_is_admin = None, row_mastodon_id = Some (MastodonId ''actors'' sample_now 1),
      row_original_actor_id = None\<rparr>"

definition bob_actor :: actor where
  "bob_actor =
     \<lparr>a_type = ''Person'', a_id = bob_url, a_url = ''https://remote.example/@bob'',
      a_published = sample_now,
      a_icon = \<lparr>img_type = Some ''Image'', img_mediaType = Some ''image/jpeg'',
                img_url = ''https://example.com/avatar.jpg'',
                img_id = Some (bob_url @ ''#icon'')\<rparr>,
      a_image = \<lparr>img_type = Some ''Image'', img_mediaType = Some ''image/jpeg'',
                 img_url = ''https://example.com/header.jpg'',
                 img_id = Some (bob_url @ ''#image'')\<rparr>,
      a_summary = None, a_name = Some ''bob'', a_preferredUsername = Some ''bob'',
      a_inbox = Some (bob_url @ ''/inbox''), a_outbox = Some (bob_url @ ''/outbox''),
      a_following = Some (bob_url @ ''/following''),
      a_followers = Some (bob_url @ ''/followers''),
      a_discoverable = True, a_publicKey = None, a_alsoKnownAs = None, a_isAdmin = False,
      a_mastodonId = Some (MastodonId ''actors'' sample_now 1)\<rparr>"

definition alice_actor :: actor where
  "alice_actor =
     \<lparr>a_type = ''Person'', a_id = alice_url, a_url = ''https://social.example/@alice'',
      a_published = ''2023-01-01T00:00:00.000Z'',
      a_icon = \<lparr>img_type = Some ''Image'', img_mediaType = Some ''image/jpeg'',
                img_url = ''https://example.com/avatar.jpg'',
                img_id = Some (alice_url @ ''#icon'')\<rparr>,
      a_image = \<lparr>img_type = Some ''Image'', img_mediaType = Some ''image/jpeg'',
                 img_url = ''https://example.com/header.jpg'',
                 img_id = Some (alice_url @ ''#image'')\<rparr>,
      a_summary = None, a_name = Some ''alice'', a_preferredUsername = Some ''alice'',
      a_inbox = Some (alice_url @ ''/inbox''), a_outbox = Some (alice_url @ ''/outbox''),
      a_following = Some (alice_url @ ''/following''),
      a_followers = Some (alice_url @ ''/followers''),
      a_discoverable = True, a_publicKey = None, a_alsoKnownAs = None, a_isAdmin = False,
      a_mastodonId = Some (MastodonId ''actors'' ''2023-01-01T00:00:00.000Z'' 1)\<rparr>"

text \<open>
  Three resolutions of Bob in a row: the remote server is down, then it answers, then it
  is down again.
\<close>

definition sample_calls :: "((string \<Rightarrow> fetch_result) \<times> string) list" where
  "sample_calls =
     [(\<lambda>u. Response 503 None, ''2023-02-01T00:00:00.000Z''),
      (sample_fetch, sample_now),
      (\<lambda>u. Response 503 None, ''2023-02-03T00:00:00.000Z'')]"

text \<open>The store after Bob's first resolution, and after his Like of the note.\<close>

definition bob_cached_state :: state where
  "bob_cached_state =
     like_state\<lparr>actors := [alice_row, bob_row], peers := [''remote.example''],
                id_sequences := [((''actors'', sample_now), 1)],
                journal := [InsertActor bob_url, UpsertPeer ''remote.example'']\<rparr>"

definition sample_notification :: "nat \<Rightarrow> notification_row" where
  "sample_notification n =
     \<lparr>notif_id = n, notif_type = ''favourite'', notif_actor_id = alice_url,
      notif_from_actor_id = bob_url, notif_object_id = note_url\<rparr>"

definition liked_state :: state where
  "liked_state =
     bob_cached_state\<lparr>actor_favourites := [\<lparr>like_actor_id = bob_url, like_object_id = note_url\<rparr>],
                      actor_notifications := [sample_notification 1],
                      journal := journal bob_cached_state @
                        [InsertNotification 1, InsertLike bob_url note_url, PushRequest 1]\<rparr>"

section \<open>Auxiliary lemmas\<close>

subsection \<open>What \<^verbatim>\<open>fetchActor\<close> returns\<close>

lemma fetchActor_summary:
  assumes "fetchActor x fetch u = Inr a" and "fetch u = Response status (Some d)"
  shows "doc_summary a =
    (if truthy (doc_summary d) then Some (take 500 (sanitizeContent x (the (doc_summary d))))
     else doc_summary d)"
  using assms unfolding fetchActor_def
  by (auto simp: Let_def split: if_splits option.splits sum.splits)

lemma fetchActor_name:
  assumes "fetchActor x fetch u = Inr a" and "fetch u = Response status (Some d)"
  shows "doc_name a =
    (if truthy (doc_name d) then Some (take 30 (getTextContent x (the (doc_name d))))
     else doc_name d)"
  using assms unfolding fetchActor_def
  by (auto simp: Let_def split: if_splits option.splits sum.splits)

lemma fetchActor_preferredUsername:
  assumes "fetchActor x fetch u = Inr a" and "fetch u = Response status (Some d)"
  shows "doc_preferredUsername a =
    (if truthy (doc_preferredUsername d)
     then Some (take 30 (getTextContent x (the (doc_preferredUsername d))))
     else doc_preferredUsername d)"
  using assms unfolding fetchActor_def
  by (auto simp: Let_def split: if_splits option.splits sum.splits)

lemma falsy_length: "\<not> truthy v \<Longrightarrow> (case v of None \<Rightarrow> True | Some s \<Rightarrow> length s \<le> n)"
  by (simp add: truthy_def split: option.splits)

subsection \<open>What \<^verbatim>\<open>actorFromRow\<close> returns\<close>

lemma default_inbox:
  "(if doc_inbox p = None then p\<lparr>doc_inbox := Some v\<rparr> else p) =
     p\<lparr>doc_inbox := Some (case doc_inbox p of None \<Rightarrow> v | Some w \<Rightarrow> w)\<rparr>"
  by (cases "doc_inbox p") simp_all

lemma default_outbox:
  "(if doc_outbox p = None then p\<lparr>doc_outbox := Some v\<rparr> else p) =
     p\<lparr>doc_outbox := Some (case doc_outbox p of None \<Rightarrow> v | Some w \<Rightarrow> w)\<rparr>"
  by (cases "doc_outbox p") simp_all

lemma default_following:
  "(if doc_following p = None then p\<lparr>doc_following := Some v\<rparr> else p) =
     p\<lparr>doc_following := Some (case doc_following p of None \<Rightarrow> v | Some w \<Rightarrow> w)\<rparr>"
  by (cases "doc_following p") simp_all

lemma default_followers:
  "(if doc_followers p = None then p\<lparr>doc_followers := Some v\<rparr> else p) =
     p\<lparr>doc_followers := Some (case doc_followers p of None \<Rightarrow> v | Some w \<Rightarrow> w)\<rparr>"
  by (cases "doc_followers p") simp_all

lemmas defaults = default_inbox default_outbox default_following default_followers

lemma actorFromRow_fields:
  assumes "actorFromRow x row = Inr a"
  shows "new_URL x (row_id row) = Some (a_id a) \<and>
     a_inbox a = Some (case doc_inbox (row_properties row) of
                         None \<Rightarrow> a_id a @ ''/inbox'' | Some v \<Rightarrow> v) \<and>
     a_outbox a = Some (case doc_outbox (row_properties row) of
                          None \<Rightarrow> a_id a @ ''/outbox'' | Some v \<Rightarrow> v) \<and>
     a_following a = Some (case doc_following (row_properties row) of
                             None \<Rightarrow> a_id a @ ''/following'' | Some v \<Rightarrow> v) \<and>
     a_followers a = Some (case doc_followers (row_properties row) of
                             None \<Rightarrow> a_id a @ ''/followers'' | Some v \<Rightarrow> v) \<and>
     a_mastodonId a = row_mastodon_id row"
proof -
  from assms obtain icon where 1: "image_or_default x (doc_icon (row_properties row)) (default_avatar x) (row_id row @ ''#icon'') = Inr icon"
    unfolding actorFromRow_def Let_def by (simp split: sum.splits)
  from assms 1 obtain img where 2: "image_or_default x (doc_image (row_properties row)) (default_header x) (row_id row @ ''#image'') = Inr img"
    unfolding actorFromRow_def Let_def by (simp split: sum.splits)
  from assms 1 2 obtain i where 3: "new_URL x (row_id row) = Some i"
    unfolding actorFromRow_def Let_def by (simp split: option.splits)
  from assms 1 2 3 obtain dom where 4: "(if truthy (row_original_actor_id row)
                      then map_option (url_hostname x)
                             (new_URL x (the (row_original_actor_id row)))
                      else Some (url_hostname x i)) = Some dom"
    unfolding actorFromRow_def Let_def by (simp split: option.splits)
  from assms show ?thesis
    unfolding actorFromRow_def Let_def defaults by (auto simp: 1 2 3 4 split: option.splits)
qed

subsection \<open>Looking an actor up\<close>

lemma setMastodonId_frame:
  assumes "setMastodonId s i c = (m, s1)"
  shows "objects s1 = objects s" "actor_favourites s1 = actor_favourites s"
    "actor_notifications s1 = actor_notifications s" "console s1 = console s"
    "journal s1 = journal s" "peers s1 = peers s"
    "actors s1 = map (\<lambda>r. if row_id r = i then r\<lparr>row_mastodon_id := Some m\<rparr> else r) (actors s)"
  using assms
  by (auto simp: setMastodonId_def generateMastodonId_def Let_def split: prod.splits)

lemma filter_set_mid:
  "filter (\<lambda>r. row_id r = j) (map (\<lambda>r. if row_id r = i then r\<lparr>row_mastodon_id := m\<rparr> else r) rows) =
   map (\<lambda>r. if row_id r = i then r\<lparr>row_mastodon_id := m\<rparr> else r) (filter (\<lambda>r. row_id r = j) rows)"
  by (induction rows) auto

lemma getActorById_cases:
  obtains (miss) "filter (\<lambda>r. row_id r = i) (actors s) = []" "getActorById x s i = (Inr None, s)"
  | (hit) r rest m where "filter (\<lambda>r. row_id r = i) (actors s) = r # rest" "row_mastodon_id r = Some m"
       "getActorById x s i = (map_sum id Some (actorFromRow x r), s)"
  | (backfill) r rest m s1 where "filter (\<lambda>r. row_id r = i) (actors s) = r # rest" "row_mastodon_id r = None"
       "setMastodonId s i (row_cdate r) = (m, s1)"
       "getActorById x s i = (map_sum id Some (actorFromRow x (r\<lparr>row_mastodon_id := Some m\<rparr>)), s1)"
proof (cases "filter (\<lambda>r. row_id r = i) (actors s)")
  case Nil
  then show ?thesis using miss by (simp add: getActorById_def)
next
  case (Cons r rest)
  then have "r \<in> set (filter (\<lambda>r. row_id r = i) (actors s))" by simp
  then have id: "row_id r = i" by simp
  show ?thesis
  proof (cases "row_mastodon_id r")
    case None
    obtain m s1 where sm: "setMastodonId s i (row_cdate r) = (m, s1)" by fastforce
    show ?thesis using backfill [OF Cons None sm] Cons None sm id
      by (simp add: getActorById_def)
  next
    case (Some m)
    show ?thesis using hit [OF Cons Some] Cons Some by (simp add: getActorById_def)
  qed
qed

lemma map_row_id_set_mid:
  "map row_id (map (\<lambda>r. if row_id r = i then r\<lparr>row_mastodon_id := m\<rparr> else r) rows) = map row_id rows"
  by (induction rows) auto

lemma getActorById_frame:
  assumes "getActorById x s i = (r, s1)"
  shows "objects s1 = objects s \<and> actor_favourites s1 = actor_favourites s \<and>
         actor_notifications s1 = actor_notifications s \<and> console s1 = console s \<and>
         journal s1 = journal s \<and> peers s1 = peers s \<and>
         map row_id (actors s1) = map row_id (actors s)"
proof (cases rule: getActorById_cases [of i s x])
  case miss
  then show ?thesis using assms by simp
next
  case (hit r rest m)
  then show ?thesis using assms by simp
next
  case (backfill r0 rest m s0)
  then have "s1 = s0" using assms by simp
  then show ?thesis
    using setMastodonId_frame [OF backfill(3)] by (simp add: map_row_id_set_mid)
qed

lemma getActorById_hit:
  assumes "cached x s i a"
  shows "getActorById x s i = (Inr (Some a), s)"
  using assms
  by (auto simp: cached_def getActorById_def split: list.splits option.splits)

lemma getActorById_after:
  assumes "getActorById x s i = (Inr (Some a), s1)"
  shows "cached x s1 i a"
proof (cases rule: getActorById_cases [of i s x])
  case miss
  then show ?thesis using assms by simp
next
  case (hit r rest m)
  then show ?thesis using assms by (cases "actorFromRow x r") (auto simp: cached_def)
next
  case (backfill r rest m s0)
  have "r \<in> set (filter (\<lambda>r. row_id r = i) (actors s))" using backfill(1) by simp
  then have id: "row_id r = i" by simp
  have s0: "s1 = s0" and af: "actorFromRow x (r\<lparr>row_mastodon_id := Some m\<rparr>) = Inr a"
    using backfill(4) assms by (cases "actorFromRow x (r\<lparr>row_mastodon_id := Some m\<rparr>)"; simp)+
  have "filter (\<lambda>r. row_id r = i) (actors s1) =
        map (\<lambda>r. if row_id r = i then r\<lparr>row_mastodon_id := Some m\<rparr> else r) (r # rest)"
    using setMastodonId_frame(7) [OF backfill(3)] s0 backfill(1) by (simp add: filter_set_mid)
  then show ?thesis using id af by (simp add: cached_def)
qed

lemma getActorById_keeps_cached:
  assumes "cached x s j b" and "getActorById x s i = (r, s1)"
  shows "cached x s1 j b"
proof (cases rule: getActorById_cases [of i s x])
  case miss
  then show ?thesis using assms by simp
next
  case (hit r rest m)
  then show ?thesis using assms by simp
next
  case (backfill r0 rest m s0)
  have s0: "s1 = s0" using backfill(4) assms(2) by simp
  have ne: "i \<noteq> j"
  proof
    assume "i = j"
    then show False using assms(1) backfill(1,2) by (simp add: cached_def)
  qed
  obtain q qs where q: "filter (\<lambda>r. row_id r = j) (actors s) = q # qs"
    using assms(1) by (auto simp: cached_def split: list.splits)
  then have "q \<in> set (filter (\<lambda>r. row_id r = j) (actors s))" by simp
  then have qid: "row_id q = j" by simp
  have "filter (\<lambda>r. row_id r = j) (actors s1) =
        map (\<lambda>r. if row_id r = i then r\<lparr>row_mastodon_id := Some m\<rparr> else r) (q # qs)"
    using setMastodonId_frame(7) [OF backfill(3)] s0 q by (simp add: filter_set_mid)
  then show ?thesis using assms(1) q qid ne by (simp add: cached_def)
qed

subsection \<open>Resolving an actor\<close>

lemma fetchActor_id:
  assumes "fetchActor x fetch u = Inr a"
  shows "\<exists>status d i. fetch u = Response status (Some d) \<and> doc_id d = Some i \<and>
           doc_id a = new_URL x i \<and> doc_id a \<noteq> None"
  using assms unfolding fetchActor_def
  by (auto simp: Let_def split: fetch_result.splits if_splits option.splits sum.splits)

lemma fetchActor_canonical:
  assumes "fetchActor x fetch u = Inr a" and "canonical x fetch u"
  shows "doc_id a = Some u"
  using fetchActor_id [OF assms(1)] assms(2) by (auto simp: canonical_def)

lemma getAndCache_miss:
  assumes "filter (\<lambda>r. row_id r = u) (actors s) = []"
  shows "getAndCache x fetch now u s =
     (case fetchActor x fetch u of
        Inl e \<Rightarrow> (Inl e, s)
      | Inr actor \<Rightarrow>
         if \<not> truthy (doc_type actor) \<or> doc_id actor = None then (Inl MissingFields, s)
         else
           (let (mastodonId, s2) = generateMastodonId s ''actors'' now;
                row = \<lparr>row_id = the (doc_id actor), row_type = the (doc_type actor),
                       row_cdate = now, row_email = None, row_pubkey = None,
                       row_properties = actor, row_is_admin = None,
                       row_mastodon_id = Some mastodonId, row_original_actor_id = None\<rparr>
            in case insert_actor row s2 of
                 Inl e \<Rightarrow> (Inl e, s2)
               | Inr s3 \<Rightarrow>
                  (let s4 = addPeer s3 (url_host x (the (doc_id actor)))
                   in (actorFromRow x row, s4))))"
  using assms by (simp add: getAndCache_def getAndCache_uncached_def getActorById_def)

lemma getAndCache_hit:
  assumes "cached x s u a"
  shows "getAndCache x fetch now u s = (Inr a, s)"
  using getActorById_hit [OF assms] by (simp add: getAndCache_def)

lemma getAndCache_found:
  assumes "filter (\<lambda>r. row_id r = u) (actors s) \<noteq> []"
  shows "getAndCache x fetch now u s =
           (case getActorById x s u of
              (Inl e, s1) \<Rightarrow> (Inl e, s1)
            | (Inr (Some a), s1) \<Rightarrow> (Inr a, s1)
            | (Inr None, s1) \<Rightarrow> (Inl MissingFields, s1)) \<and>
         fst (getActorById x s u) \<noteq> Inr None"
proof (cases rule: getActorById_cases [of u s x])
  case miss
  then show ?thesis using assms by simp
next
  case (hit r rest m)
  then show ?thesis
    by (cases "actorFromRow x r") (simp_all add: getAndCache_def)
next
  case (backfill r rest m s1)
  then show ?thesis
    by (cases "actorFromRow x (r\<lparr>row_mastodon_id := Some m\<rparr>)") (simp_all add: getAndCache_def)
qed

lemma generateMastodonId_frame:
  assumes "generateMastodonId s tb t = (m, s1)"
  shows "objects s1 = objects s" "actor_favourites s1 = actor_favourites s"
    "actor_notifications s1 = actor_notifications s" "console s1 = console s"
    "journal s1 = journal s" "peers s1 = peers s" "actors s1 = actors s"
  using assms by (auto simp: generateMastodonId_def Let_def)

lemma insert_actor_frame:
  assumes "insert_actor row s = Inr s1"
  shows "objects s1 = objects s" "actor_favourites s1 = actor_favourites s"
    "actor_notifications s1 = actor_notifications s" "console s1 = console s"
    "peers s1 = peers s" "actors s1 = actors s @ [row]"
    "row_id row \<notin> row_id ` set (actors s)"
  using assms by (auto simp: insert_actor_def split: if_splits)

lemma addPeer_frame:
  shows "objects (addPeer s h) = objects s" "actor_favourites (addPeer s h) = actor_favourites s"
    "actor_notifications (addPeer s h) = actor_notifications s" "console (addPeer s h) = console s"
    "actors (addPeer s h) = actors s"
  by (auto simp: addPeer_def)

lemma getAndCache_actors:
  assumes "getAndCache x fetch now u s = (r, s1)"
  shows "objects s1 = objects s \<and> actor_favourites s1 = actor_favourites s \<and>
         actor_notifications s1 = actor_notifications s \<and> console s1 = console s \<and>
         (map row_id (actors s1) = map row_id (actors s) \<and>
            (filter (\<lambda>r. row_id r = u) (actors s) = [] \<longrightarrow> (\<exists>e. r = Inl e)) \<or>
          (\<exists>row m doc. filter (\<lambda>r. row_id r = u) (actors s) = [] \<and>
             fetchActor x fetch u = Inr doc \<and> doc_id doc = Some (row_id row) \<and>
             row_id row \<notin> row_id ` set (actors s) \<and>
             row_mastodon_id row = Some m \<and>
             actors s1 = actors s @ [row] \<and> r = actorFromRow x row))"
proof (cases "filter (\<lambda>r. row_id r = u) (actors s) = []")
  case False
  obtain q s2 where g: "getActorById x s u = (q, s2)" by fastforce
  have "s1 = s2" using getAndCache_found [OF False, of x fetch now] g assms
    by (auto split: sum.splits option.splits)
  then show ?thesis using getActorById_frame [OF g] False by simp
next
  case True
  note miss = getAndCache_miss [OF True, of x fetch now]
  show ?thesis
  proof (cases "fetchActor x fetch u")
    case (Inl e)
    then show ?thesis using miss assms by simp
  next
    case (Inr doc)
    show ?thesis
    proof (cases "\<not> truthy (doc_type doc) \<or> doc_id doc = None")
      case True
      then show ?thesis using miss assms Inr by simp
    next
      case ok: False
      then obtain i where i: "doc_id doc = Some i" and ty: "truthy (doc_type doc)" by auto
      obtain m s2 where gm: "generateMastodonId s ''actors'' now = (m, s2)" by fastforce
      define row where "row = \<lparr>row_id = the (doc_id doc), row_type = the (doc_type doc),
                       row_cdate = now, row_email = None, row_pubkey = None,
                       row_properties = doc, row_is_admin = None,
                       row_mastodon_id = Some m, row_original_actor_id = None\<rparr>"
      note facts = miss assms \<open>fetchActor x fetch u = Inr doc\<close> i ty gm
      show ?thesis
      proof (cases "insert_actor row s2")
        case (Inl e)
        then have "s1 = s2" "r = Inl e" using facts by (simp_all add: row_def Let_def)
        then show ?thesis
          using generateMastodonId_frame [OF gm] True by simp
      next
        case (Inr s3)
        then have s1: "s1 = addPeer s3 (url_host x (the (doc_id doc)))" and r: "r = actorFromRow x row"
          using facts by (simp_all add: row_def Let_def)
        have "row_id row = the (doc_id doc)" "row_mastodon_id row = Some m" by (simp_all add: row_def)
        then show ?thesis
          using generateMastodonId_frame [OF gm] insert_actor_frame [OF Inr] s1 r True i
            \<open>fetchActor x fetch u = Inr doc\<close>
          by (auto simp: addPeer_frame)
      qed
    qed
  qed
qed

subsection \<open>A call that goes on after its lookup\<close>

lemma getAndCache_lookup_missed:
  assumes "filter (\<lambda>r. row_id r = u) (actors s) = []"
  shows "getAndCache x fetch now u s = getAndCache_uncached x fetch now u s"
  using assms by (simp add: getAndCache_def getActorById_def)

lemma getAndCache_uncached_cases:
  assumes "getAndCache_uncached x fetch now u s = (r, s1)"
  obtains (failed) e where "r = Inl e" "s1 = s"
      "\<And>doc. fetchActor x fetch u = Inr doc \<Longrightarrow> \<not> truthy (doc_type doc)"
  | (conflict) doc i m where "fetchActor x fetch u = Inr doc" "truthy (doc_type doc)"
      "doc_id doc = Some i" "i \<in> row_id ` set (actors s)"
      "r = Inl (SqlError ''UNIQUE constraint failed: actors.id'')"
      "generateMastodonId s ''actors'' now = (m, s1)"
  | (inserted) doc row m where "fetchActor x fetch u = Inr doc" "truthy (doc_type doc)"
      "doc_id doc = Some (row_id row)" "row_id row \<notin> row_id ` set (actors s)"
      "row_mastodon_id row = Some m" "actors s1 = actors s @ [row]" "r = actorFromRow x row"
      "objects s1 = objects s" "actor_favourites s1 = actor_favourites s"
      "actor_notifications s1 = actor_notifications s" "console s1 = console s"
proof (cases "fetchActor x fetch u")
  case (Inl e)
  then have "r = Inl e" "s1 = s" using assms by (simp_all add: getAndCache_uncached_def)
  then show ?thesis using failed [of e] Inl by simp
next
  case (Inr doc)
  show ?thesis
  proof (cases "\<not> truthy (doc_type doc) \<or> doc_id doc = None")
    case True
    have "doc_id doc \<noteq> None" using fetchActor_id [OF Inr] by auto
    then have nt: "\<not> truthy (doc_type doc)" using True by auto
    then have "r = Inl MissingFields" "s1 = s"
      using assms Inr by (simp_all add: getAndCache_uncached_def)
    then show ?thesis using failed [of MissingFields] Inr nt by simp
  next
    case ok: False
    then obtain i where i: "doc_id doc = Some i" and ty: "truthy (doc_type doc)" by auto
    obtain m s2 where gm: "generateMastodonId s ''actors'' now = (m, s2)" by fastforce
    define row where "row = \<lparr>row_id = the (doc_id doc), row_type = the (doc_type doc),
                     row_cdate = now, row_email = None, row_pubkey = None,
                     row_properties = doc, row_is_admin = None,
                     row_mastodon_id = Some m, row_original_actor_id = None\<rparr>"
    have rid: "row_id row = i" "row_mastodon_id row = Some m" using i by (simp_all add: row_def)
    note facts = assms Inr i ty gm
    show ?thesis
    proof (cases "insert_actor row s2")
      case (Inl e)
      then have "s1 = s2" "r = Inl e"
        using facts by (simp_all add: getAndCache_uncached_def row_def Let_def)
      moreover have "e = SqlError ''UNIQUE constraint failed: actors.id''"
        "i \<in> row_id ` set (actors s)"
        using Inl rid generateMastodonId_frame(7) [OF gm]
        by (auto simp: insert_actor_def split: if_splits)
      ultimately show ?thesis using conflict [OF Inr ty i] gm by simp
    next
      case ins: (Inr s3)
      then have s1: "s1 = addPeer s3 (url_host x (the (doc_id doc)))"
        and r: "r = actorFromRow x row"
        using facts by (simp_all add: getAndCache_uncached_def row_def Let_def)
      show ?thesis
        using inserted [of doc row m] Inr ty i rid r s1
          generateMastodonId_frame [OF gm] insert_actor_frame [OF ins]
        by (simp add: addPeer_frame)
    qed
  qed
qed

lemma getAndCache_uncached_at_most_one:
  assumes "length (filter (\<lambda>r. row_id r = u) (actors s)) \<le> 1"
    and "getAndCache_uncached x fetch now u s = (r, s1)"
  shows "length (filter (\<lambda>r. row_id r = u) (actors s1)) \<le> 1"
  using assms(2)
proof (cases rule: getAndCache_uncached_cases)
  case (failed e)
  then show ?thesis using assms(1) by simp
next
  case (conflict doc i m)
  then show ?thesis using assms(1) generateMastodonId_frame(7) [OF conflict(6)] by simp
next
  case (inserted doc row m)
  show ?thesis
  proof (cases "row_id row = u")
    case True
    have "row_id q \<noteq> u" if "q \<in> set (actors s)" for q
      using inserted(4) True imageI [OF that, of row_id] by auto
    then have "filter (\<lambda>r. row_id r = u) (actors s) = []"
      by (auto simp: filter_empty_conv)
    then show ?thesis using inserted(6) True by simp
  next
    case False
    then show ?thesis using inserted(6) assms(1) by simp
  qed
qed

lemma getAndCache_uncached_row_exists:
  assumes "filter (\<lambda>r. row_id r = u) (actors s) \<noteq> []" and "canonical x fetch u"
    and "getAndCache_uncached x fetch now u s = (r, s1)"
  shows "actors s1 = actors s \<and> (\<exists>e. r = Inl e) \<and>
         (\<forall>doc. fetchActor x fetch u = Inr doc \<and> truthy (doc_type doc) \<longrightarrow>
            r = Inl (SqlError ''UNIQUE constraint failed: actors.id''))"
  using assms(3)
proof (cases rule: getAndCache_uncached_cases)
  case (failed e)
  then show ?thesis by auto
next
  case (conflict doc i m)
  then show ?thesis using generateMastodonId_frame(7) [OF conflict(6)] by simp
next
  case (inserted doc row m)
  have u: "row_id row = u" using fetchActor_canonical [OF inserted(1) assms(2)] inserted(3) by simp
  obtain q where q: "q \<in> set (actors s)" "row_id q = u"
    using assms(1) by (auto simp: filter_empty_conv)
  have "row_id q \<in> row_id ` set (actors s)" using q(1) by (rule imageI)
  then have False using inserted(4) u q(2) by simp
  then show ?thesis ..
qed

subsection \<open>Resolving the same identifier again and again\<close>

lemma length_filter_row_id:
  "length (filter (\<lambda>r. row_id r = u) rows) = length (filter (\<lambda>i. i = u) (map row_id rows))"
  by (induction rows) auto

lemma same_ids_same_count:
  assumes "map row_id rows = map row_id rows'"
  shows "length (filter (\<lambda>r. row_id r = u) rows) = length (filter (\<lambda>r. row_id r = u) rows')"
  using assms by (simp only: length_filter_row_id)

lemma getAndCache_at_most_one:
  assumes "length (filter (\<lambda>r. row_id r = u) (actors s)) \<le> 1"
    and "getAndCache x fetch now u s = (r, s1)"
  shows "length (filter (\<lambda>r. row_id r = u) (actors s1)) \<le> 1"
proof -
  from getAndCache_actors [OF assms(2)]
  consider "map row_id (actors s1) = map row_id (actors s)"
    | row where "filter (\<lambda>r. row_id r = u) (actors s) = []" "actors s1 = actors s @ [row]"
    by blast
  then show ?thesis
  proof cases
    case 1
    then show ?thesis using same_ids_same_count [OF 1, of u] assms(1) by simp
  next
    case 2
    then show ?thesis by simp
  qed
qed

lemma getAndCache_after:
  assumes "getAndCache x fetch now u s = (Inr a, s1)" and "canonical x fetch u"
  shows "cached x s1 u a"
proof (cases "filter (\<lambda>r. row_id r = u) (actors s) = []")
  case False
  have "getActorById x s u = (Inr (Some a), s1)"
    using getAndCache_found [OF False, of x fetch now] assms(1)
    by (auto split: prod.splits sum.splits option.splits)
  then show ?thesis by (rule getActorById_after)
next
  case True
  from getAndCache_actors [OF assms(1)] True
  obtain row m doc where f: "fetchActor x fetch u = Inr doc" and d: "doc_id doc = Some (row_id row)"
    and m: "row_mastodon_id row = Some m" and a: "actors s1 = actors s @ [row]"
    and r: "Inr a = actorFromRow x row"
    by auto
  have "row_id row = u" using fetchActor_canonical [OF f assms(2)] d by simp
  then show ?thesis using True m a r by (simp add: cached_def)
qed

lemma cached_single:
  assumes "cached x s u a" and "length (filter (\<lambda>r. row_id r = u) (actors s)) \<le> 1"
  shows "\<exists>row. filter (\<lambda>r. row_id r = u) (actors s) = [row] \<and> actorFromRow x row = Inr a"
  using assms by (cases "filter (\<lambda>r. row_id r = u) (actors s)") (auto simp: cached_def)

lemma resolve_all_cached:
  assumes "cached x s u a"
  shows "resolve_all x calls u s = (replicate (length calls) (Inr a), s)"
  using assms
proof (induction calls)
  case Nil
  then show ?case by simp
next
  case (Cons c calls)
  obtain fetch now where c: "c = (fetch, now)" by (cases c)
  show ?case using Cons getAndCache_hit [OF Cons.prems, of fetch now] by (simp add: c)
qed

lemma resolve_all_invariant:
  assumes "\<forall>c \<in> set calls. canonical x (fst c) u"
    and "length (filter (\<lambda>r. row_id r = u) (actors s)) \<le> 1"
    and "resolve_all x calls u s = (rs, s')"
  shows "length (filter (\<lambda>r. row_id r = u) (actors s')) \<le> 1 \<and>
         (\<forall>a. Inr a \<in> set rs \<longrightarrow> cached x s' u a)"
  using assms
proof (induction calls arbitrary: s rs)
  case Nil
  then show ?case by simp
next
  case (Cons c calls)
  obtain fetch now where c: "c = (fetch, now)" by (cases c)
  obtain r s1 where g: "getAndCache x fetch now u s = (r, s1)" by fastforce
  obtain rs1 where rest: "resolve_all x calls u s1 = (rs1, s')" and rs: "rs = r # rs1"
    using Cons.prems(3) g by (auto simp: c split: prod.splits)
  have one: "length (filter (\<lambda>r. row_id r = u) (actors s1)) \<le> 1"
    using getAndCache_at_most_one [OF Cons.prems(2) g] .
  have can: "\<forall>c \<in> set calls. canonical x (fst c) u" using Cons.prems(1) by simp
  note ih = Cons.IH [OF can one rest]
  have head: "cached x s' u a" if "r = Inr a" for a
  proof -
    have "canonical x fetch u" using Cons.prems(1) by (simp add: c)
    then have ca: "cached x s1 u a" using getAndCache_after g that by simp
    then have "s' = s1" using resolve_all_cached [OF ca, of calls] rest by simp
    then show ?thesis using ca by simp
  qed
  show ?case using ih head rs by auto
qed

subsection \<open>Two calls that overlap\<close>

lemma getActorById_at_most_one:
  assumes "length (filter (\<lambda>r. row_id r = u) (actors s)) \<le> 1"
    and "getActorById x s i = (r, s1)"
  shows "length (filter (\<lambda>r. row_id r = u) (actors s1)) \<le> 1"
proof -
  have "map row_id (actors s1) = map row_id (actors s)"
    using getActorById_frame [OF assms(2)] by simp
  then have "length (filter (\<lambda>r. row_id r = u) (actors s1)) =
             length (filter (\<lambda>r. row_id r = u) (actors s))"
    by (simp only: length_filter_row_id)
  then show ?thesis using assms(1) by simp
qed

lemma getAndCache_overlapping_at_most_one:
  assumes "length (filter (\<lambda>r. row_id r = u) (actors s)) \<le> 1"
    and "getAndCache_overlapping x fetch1 now1 fetch2 now2 u s = (rs, s')"
  shows "length (filter (\<lambda>r. row_id r = u) (actors s')) \<le> 1"
proof -
  obtain found1 sa where l1: "getActorById x s u = (found1, sa)" by fastforce
  obtain found2 sb where l2: "getActorById x sa u = (found2, sb)" by fastforce
  have b: "length (filter (\<lambda>r. row_id r = u) (actors sb)) \<le> 1"
    using getActorById_at_most_one [OF getActorById_at_most_one [OF assms(1) l1] l2] .
  obtain r1 sc where c1: "(case found1 of
                        Inl e \<Rightarrow> (Inl e, sb)
                      | Inr (Some a) \<Rightarrow> (Inr a, sb)
                      | Inr None \<Rightarrow> getAndCache_uncached x fetch1 now1 u sb) = (r1, sc)"
    by fastforce
  have c: "length (filter (\<lambda>r. row_id r = u) (actors sc)) \<le> 1"
    using c1 b getAndCache_uncached_at_most_one [OF b, of x fetch1 now1]
    by (auto split: sum.splits option.splits)
  obtain r2 sd where c2: "(case found2 of
                        Inl e \<Rightarrow> (Inl e, sc)
                      | Inr (Some a) \<Rightarrow> (Inr a, sc)
                      | Inr None \<Rightarrow> getAndCache_uncached x fetch2 now2 u sc) = (r2, sd)"
    by fastforce
  have d: "length (filter (\<lambda>r. row_id r = u) (actors sd)) \<le> 1"
    using c2 c getAndCache_uncached_at_most_one [OF c, of x fetch2 now2]
    by (auto split: sum.splits option.splits)
  have "s' = sd" using assms(2) l1 l2 c1 c2 by (simp add: getAndCache_overlapping_def)
  then show ?thesis using d by simp
qed

lemma getAndCache_overlapping_missed:
  assumes "filter (\<lambda>r. row_id r = u) (actors s) = []"
  shows "getAndCache_overlapping x fetch1 now1 fetch2 now2 u s =
     (let (r1, sc) = getAndCache_uncached x fetch1 now1 u s;
          (r2, sd) = getAndCache_uncached x fetch2 now2 u sc
      in ((r1, r2), sd))"
  using assms by (simp add: getAndCache_overlapping_def getActorById_def)

lemma getAndCache_overlapping_second_fails:
  assumes "filter (\<lambda>r. row_id r = u) (actors s) = []"
    and "canonical x fetch1 u" and "canonical x fetch2 u"
    and "getAndCache_overlapping x fetch1 now1 fetch2 now2 u s = ((Inr a, r2), s')"
  shows "(\<exists>e. r2 = Inl e) \<and>
         (\<forall>doc. fetchActor x fetch2 u = Inr doc \<and> truthy (doc_type doc) \<longrightarrow>
            r2 = Inl (SqlError ''UNIQUE constraint failed: actors.id'')) \<and>
         (\<exists>row. filter (\<lambda>r. row_id r = u) (actors s') = [row] \<and> actorFromRow x row = Inr a)"
proof -
  obtain r1 sc where u1: "getAndCache_uncached x fetch1 now1 u s = (r1, sc)" by fastforce
  obtain q sd where u2: "getAndCache_uncached x fetch2 now2 u sc = (q, sd)" by fastforce
  have eq: "r1 = Inr a" "q = r2" "sd = s'"
    using assms(4) getAndCache_overlapping_missed [OF assms(1), of x fetch1 now1 fetch2 now2] u1 u2
    by simp_all
  have "getAndCache x fetch1 now1 u s = (Inr a, sc)"
    using getAndCache_lookup_missed [OF assms(1), of x fetch1 now1] u1 eq(1) by simp
  then have ca: "cached x sc u a" using getAndCache_after assms(2) by blast
  have one: "length (filter (\<lambda>r. row_id r = u) (actors sc)) \<le> 1"
    using getAndCache_uncached_at_most_one [OF _ u1] assms(1) by simp
  obtain row where row: "filter (\<lambda>r. row_id r = u) (actors sc) = [row]"
    "actorFromRow x row = Inr a"
    using cached_single [OF ca one] by blast
  then have ne: "filter (\<lambda>r. row_id r = u) (actors sc) \<noteq> []" by simp
  note second = getAndCache_uncached_row_exists [OF ne assms(3) u2]
  show ?thesis using second row eq by auto
qed

subsection \<open>Cached actors\<close>

lemma cached_id:
  assumes "cached x s i a"
  shows "new_URL x i = Some (a_id a)"
proof -
  obtain r rest where f: "filter (\<lambda>r. row_id r = i) (actors s) = r # rest"
    and a: "actorFromRow x r = Inr a"
    using assms by (auto simp: cached_def split: list.splits)
  have "r \<in> set (filter (\<lambda>r. row_id r = i) (actors s))" using f by simp
  then have "row_id r = i" by simp
  then show ?thesis using actorFromRow_fields [OF a] by simp
qed

lemma cached_actors:
  assumes "actors s' = actors s"
  shows "cached x s' i a = cached x s i a"
  using assms by (simp add: cached_def)

lemma fetchActor_type:
  assumes "fetchActor x fetch u = Inr a" and "fetch u = Response status (Some d)"
  shows "doc_type a = doc_type d"
  using assms unfolding fetchActor_def
  by (auto simp: Let_def split: if_splits option.splits sum.splits)

subsection \<open>The outcomes of a Like activity\<close>

lemma handleLikeActivity_applied:
  assumes "like_resolves x fetch now activity s ob fromActor targetActor s2"
  shows "\<exists>s'. handleLikeActivity x fetch now push activity s = (Inr (), s') \<and>
     actors s' = actors s2 \<and> objects s' = objects s2 \<and> peers s' = peers s2 \<and>
     actor_notifications s' =
       actor_notifications s2 @ [like_notification s2 targetActor fromActor ob] \<and>
     actor_favourites s' =
       (if like_edge fromActor ob \<in> set (actor_favourites s2) then actor_favourites s2
        else actor_favourites s2 @ [like_edge fromActor ob]) \<and>
     journal s' =
       journal s2 @ [InsertNotification (Suc (length (actor_notifications s2))),
                     InsertLike (a_id fromActor) (obj_id ob),
                     PushRequest (Suc (length (actor_notifications s2)))] \<and>
     console s' =
       (if push then console s2 else console s2 @ [''failed to send push notification''])"
proof -
  obtain r1 s1 where g: "getAndCache x fetch now (act_actor activity) s = (r1, s1)" by fastforce
  obtain t where t: "new_URL x (the (obj_originalActorId ob)) = Some t"
    using assms by (auto simp: like_resolves_def split: option.splits)
  have ob: "getObjectById s (act_object activity) = Some ob" and tr: "truthy (obj_originalActorId ob)"
    and r1: "r1 = Inr fromActor" and ta: "getActorById x s1 t = (Inr (Some targetActor), s2)"
    using assms g t by (simp_all add: like_resolves_def)
  show ?thesis
    unfolding handleLikeActivity_def
    by (simp add: ob tr g r1 t ta Let_def createNotification_def insertLike_def
        sendLikeNotification_def like_notification_def like_edge_def)
qed

lemma handleLikeActivity_in_order_applied:
  assumes "like_resolves x fetch now activity s ob fromActor targetActor s2"
  shows "\<exists>s'. handleLikeActivity_in_order notification_first x fetch now push activity s =
             (Inr (), s') \<and>
     actor_notifications s' =
       actor_notifications s2 @ [like_notification s2 targetActor fromActor ob] \<and>
     actor_favourites s' =
       (if like_edge fromActor ob \<in> set (actor_favourites s2) then actor_favourites s2
        else actor_favourites s2 @ [like_edge fromActor ob]) \<and>
     journal s' =
       journal s2 @
         (if notification_first
          then [InsertNotification (Suc (length (actor_notifications s2))),
                InsertLike (a_id fromActor) (obj_id ob)]
          else [InsertLike (a_id fromActor) (obj_id ob),
                InsertNotification (Suc (length (actor_notifications s2)))]) @
         [PushRequest (Suc (length (actor_notifications s2)))]"
proof -
  obtain r1 s1 where g: "getAndCache x fetch now (act_actor activity) s = (r1, s1)" by fastforce
  obtain t where t: "new_URL x (the (obj_originalActorId ob)) = Some t"
    using assms by (auto simp: like_resolves_def split: option.splits)
  have ob: "getObjectById s (act_object activity) = Some ob" and tr: "truthy (obj_originalActorId ob)"
    and r1: "r1 = Inr fromActor" and ta: "getActorById x s1 t = (Inr (Some targetActor), s2)"
    using assms g t by (simp_all add: like_resolves_def)
  show ?thesis
    unfolding handleLikeActivity_in_order_def
    by (simp add: ob tr g r1 t ta Let_def createNotification_def insertLike_def
        sendLikeNotification_def like_notification_def like_edge_def)
qed

lemma handleLikeActivity_notification_first:
  "handleLikeActivity x fetch now push activity s =
     handleLikeActivity_in_order True x fetch now push activity s"
  by (simp add: handleLikeActivity_def handleLikeActivity_in_order_def Let_def
      split: option.splits sum.splits prod.splits)

lemma getObjectById_frame:
  assumes "objects s1 = objects s"
  shows "getObjectById s1 i = getObjectById s i"
  using assms by (simp add: getObjectById_def)

lemma handleLikeActivity_rejected:
  assumes "handleLikeActivity x fetch now push activity s = (r, s')"
    and "\<not> (\<exists>ob fromActor targetActor s2.
             like_resolves x fetch now activity s ob fromActor targetActor s2)"
  shows "actor_notifications s' = actor_notifications s \<and>
         actor_favourites s' = actor_favourites s"
proof (cases "getObjectById s (act_object activity)")
  case None
  then show ?thesis using assms(1) by (auto simp: handleLikeActivity_def warn_def)
next
  case (Some ob)
  show ?thesis
  proof (cases "truthy (obj_originalActorId ob)")
    case False
    then show ?thesis using assms(1) Some by (auto simp: handleLikeActivity_def warn_def)
  next
    case True
    obtain r1 s1 where g: "getAndCache x fetch now (act_actor activity) s = (r1, s1)" by fastforce
    note f1 = getAndCache_actors [OF g]
    show ?thesis
    proof (cases r1)
      case (Inl e)
      then show ?thesis using assms(1) Some True g f1 by (auto simp: handleLikeActivity_def)
    next
      case (Inr fromActor)
      show ?thesis
      proof (cases "new_URL x (the (obj_originalActorId ob))")
        case None
        then show ?thesis using assms(1) Some True g f1 Inr
          by (auto simp: handleLikeActivity_def)
      next
        case (Some t)
        obtain r2 s2 where ga: "getActorById x s1 t = (r2, s2)" by fastforce
        note f2 = getActorById_frame [OF ga]
        have "r2 \<noteq> Inr (Some targetActor)" for targetActor
          using assms(2) \<open>getObjectById s (act_object activity) = Some ob\<close> True g Inr Some ga
          by (auto simp: like_resolves_def)
        then consider e where "r2 = Inl e" | "r2 = Inr None"
        proof (cases r2)
          case (Inl e)
          then show ?thesis using that by blast
        next
          case (Inr b)
          then show ?thesis using that \<open>\<And>targetActor. r2 \<noteq> Inr (Some targetActor)\<close>
            by (cases b) auto
        qed
        then show ?thesis
        proof cases
          case 1
          then show ?thesis
            using assms(1) \<open>getObjectById s (act_object activity) = Some ob\<close> True g Inr Some ga f1 f2
            by (auto simp: handleLikeActivity_def)
        next
          case 2
          then show ?thesis
            using assms(1) \<open>getObjectById s (act_object activity) = Some ob\<close> True g Inr Some ga f1 f2
            by (auto simp: handleLikeActivity_def warn_def)
        qed
      qed
    qed
  qed
qed

subsection \<open>The sample data\<close>

lemmas sample_defs = alice_url_def bob_url_def note_url_def alice_row_def bob_doc_def
  sample_fetch_def like_state_def sample_like_def empty_state_def empty_doc_def sample_ext_def
  sample_now_def sample_note_def

section \<open>Actor Cache: one row per identifier, and a plain insert\<close>

text \<open>
  Claim C1, as amended. Let \<open>u\<close> be a canonical actor identifier: whenever the document
  served at \<open>u\<close> declares an identifier, it declares \<open>u\<close>.

  \<^item> Calls of \<^verbatim>\<open>getAndCache\<close> for \<open>u\<close> made one after the other, any number of them, on a
    store with at most one row for \<open>u\<close> (none, or one that exists before the first call)
    leave at most one row for \<open>u\<close>; every call that returned an actor returned the
    conversion of that single persisted row, and one more call, in any remote world,
    returns the same actor and leaves the store as it is.
  \<^item> Two calls that overlap, both lookups running before either call goes on, leave at
    most one row for \<open>u\<close> as well.
  \<^item> The \<^verbatim>\<open>INSERT\<close> is not idempotent. When two calls overlap, neither lookup finds a
    row and the first call returns the actor it inserted, the second call does not return
    the persisted row: it fails, with the uniqueness error of the store if its own fetch
    and checks succeeded. The single row of the first call stays.
\<close>

theorem getAndCache_one_row_plain_insert:
  "((\<forall>c \<in> set calls. canonical x (fst c) u) \<and>
    length (filter (\<lambda>r. row_id r = u) (actors s)) \<le> 1 \<and>
    resolve_all x calls u s = (rs, s') \<longrightarrow>
      length (filter (\<lambda>r. row_id r = u) (actors s')) \<le> 1 \<and>
      (\<forall>a. Inr a \<in> set rs \<longrightarrow>
         (\<exists>row. filter (\<lambda>r. row_id r = u) (actors s') = [row] \<and>
                actorFromRow x row = Inr a \<and>
                getAndCache x fetch' now' u s' = (Inr a, s')))) \<and>
   (length (filter (\<lambda>r. row_id r = u) (actors s)) \<le> 1 \<and>
    getAndCache_overlapping x fetch1 now1 fetch2 now2 u s = (both, s'') \<longrightarrow>
      length (filter (\<lambda>r. row_id r = u) (actors s'')) \<le> 1) \<and>
   (filter (\<lambda>r. row_id r = u) (actors s) = [] \<and>
    canonical x fetch1 u \<and> canonical x fetch2 u \<and>
    getAndCache_overlapping x fetch1 now1 fetch2 now2 u s = ((Inr a1, r2), s'') \<longrightarrow>
      (\<exists>e. r2 = Inl e) \<and>
      (\<forall>doc. fetchActor x fetch2 u = Inr doc \<and> truthy (doc_type doc) \<longrightarrow>
         r2 = Inl (SqlError ''UNIQUE constraint failed: actors.id'')) \<and>
      (\<exists>row. filter (\<lambda>r. row_id r = u) (actors s'') = [row] \<and>
             actorFromRow x row = Inr a1))"
proof -
  have 1: "length (filter (\<lambda>r. row_id r = u) (actors s')) \<le> 1 \<and>
      (\<forall>a. Inr a \<in> set rs \<longrightarrow>
         (\<exists>row. filter (\<lambda>r. row_id r = u) (actors s') = [row] \<and>
                actorFromRow x row = Inr a \<and>
                getAndCache x fetch' now' u s' = (Inr a, s')))"
    if h: "\<forall>c \<in> set calls. canonical x (fst c) u"
      "length (filter (\<lambda>r. row_id r = u) (actors s)) \<le> 1"
      "resolve_all x calls u s = (rs, s')"
  proof -
    note inv = resolve_all_invariant [OF h]
    have "\<exists>row. filter (\<lambda>r. row_id r = u) (actors s') = [row] \<and> actorFromRow x row = Inr a \<and>
            getAndCache x fetch' now' u s' = (Inr a, s')"
      if m: "Inr a \<in> set rs" for a
    proof -
      have c: "cached x s' u a" using inv m by blast
      show ?thesis using cached_single [OF c] inv getAndCache_hit [OF c] by blast
    qed
    then show ?thesis using inv by blast
  qed
  have 2: "length (filter (\<lambda>r. row_id r = u) (actors s'')) \<le> 1"
    if h: "length (filter (\<lambda>r. row_id r = u) (actors s)) \<le> 1"
      "getAndCache_overlapping x fetch1 now1 fetch2 now2 u s = (both, s'')"
    using getAndCache_overlapping_at_most_one [OF h] .
  have 3: "(\<exists>e. r2 = Inl e) \<and>
      (\<forall>doc. fetchActor x fetch2 u = Inr doc \<and> truthy (doc_type doc) \<longrightarrow>
         r2 = Inl (SqlError ''UNIQUE constraint failed: actors.id'')) \<and>
      (\<exists>row. filter (\<lambda>r. row_id r = u) (actors s'') = [row] \<and>
             actorFromRow x row = Inr a1)"
    if h: "filter (\<lambda>r. row_id r = u) (actors s) = []"
      "canonical x fetch1 u" "canonical x fetch2 u"
      "getAndCache_overlapping x fetch1 now1 fetch2 now2 u s = ((Inr a1, r2), s'')"
    using getAndCache_overlapping_second_fails [OF h] .
  from 1 2 3 show ?thesis by blast
qed

text \<open>
  Bob is not cached at first. Three resolutions one after the other: the first fails with
  the remote server, the second inserts his row, the third finds it although the server
  is down. Two resolutions that overlap: the first inserts his row, the second fails on
  the \<^verbatim>\<open>INSERT\<close>.
\<close>

theorem getAndCache_one_row_plain_insert_witness:
  "fst (resolve_all sample_ext sample_calls bob_url like_state) =
     [Inl (HttpError bob_url 503), Inr bob_actor, Inr bob_actor] \<and>
   (\<exists>row. filter (\<lambda>r. row_id r = bob_url)
            (actors (snd (resolve_all sample_ext sample_calls bob_url like_state))) = [row] \<and>
          actorFromRow sample_ext row = Inr bob_actor \<and>
          getAndCache sample_ext (\<lambda>u. FetchFailed) sample_now bob_url
            (snd (resolve_all sample_ext sample_calls bob_url like_state)) =
            (Inr bob_actor, snd (resolve_all sample_ext sample_calls bob_url like_state))) \<and>
   fst (getAndCache_overlapping sample_ext sample_fetch sample_now sample_fetch
          ''2023-02-03T00:00:00.000Z'' bob_url like_state) =
     (Inr bob_actor, Inl (SqlError ''UNIQUE constraint failed: actors.id'')) \<and>
   (\<exists>row. filter (\<lambda>r. row_id r = bob_url)
            (actors (snd (getAndCache_overlapping sample_ext sample_fetch sample_now sample_fetch
                            ''2023-02-03T00:00:00.000Z'' bob_url like_state))) = [row] \<and>
          actorFromRow sample_ext row = Inr bob_actor)"
proof -
  let ?seq = "resolve_all sample_ext sample_calls bob_url like_state"
  let ?ovl = "getAndCache_overlapping sample_ext sample_fetch sample_now sample_fetch
                ''2023-02-03T00:00:00.000Z'' bob_url like_state"
  have c: "\<forall>c \<in> set sample_calls. canonical sample_ext (fst c) bob_url"
    by (simp add: sample_calls_def canonical_def sample_defs)
  have one: "length (filter (\<lambda>r. row_id r = bob_url) (actors like_state)) \<le> 1"
    by (simp add: sample_defs)
  have none: "filter (\<lambda>r. row_id r = bob_url) (actors like_state) = []"
    by (simp add: sample_defs)
  have can: "canonical sample_ext sample_fetch bob_url"
    by (simp add: canonical_def sample_defs)
  have rs: "fst ?seq = [Inl (HttpError bob_url 503), Inr bob_actor, Inr bob_actor]"
    by code_simp
  have ro: "fst ?ovl = (Inr bob_actor, Inl (SqlError ''UNIQUE constraint failed: actors.id''))"
    by code_simp
  then have ovl: "?ovl = ((Inr bob_actor, Inl (SqlError ''UNIQUE constraint failed: actors.id'')),
                          snd ?ovl)"
    by (metis prod.collapse)
  note t = getAndCache_one_row_plain_insert [of sample_calls sample_ext bob_url like_state
      "fst ?seq" "snd ?seq" "\<lambda>u. FetchFailed" sample_now sample_fetch sample_now sample_fetch
      "''2023-02-03T00:00:00.000Z''" "fst ?ovl" "snd ?ovl" bob_actor
      "Inl (SqlError ''UNIQUE constraint failed: actors.id'')"]
  have m: "Inr bob_actor \<in> set (fst ?seq)" by (simp add: rs)
  have p: "resolve_all sample_ext sample_calls bob_url like_state = (fst ?seq, snd ?seq)"
    by simp
  from t c one p
  have "\<forall>a. Inr a \<in> set (fst ?seq) \<longrightarrow>
          (\<exists>row. filter (\<lambda>r. row_id r = bob_url) (actors (snd ?seq)) = [row] \<and>
                 actorFromRow sample_ext row = Inr a \<and>
                 getAndCache sample_ext (\<lambda>u. FetchFailed) sample_now bob_url (snd ?seq) =
                   (Inr a, snd ?seq))"
    by blast
  with m have a: "\<exists>row. filter (\<lambda>r. row_id r = bob_url) (actors (snd ?seq)) = [row] \<and>
          actorFromRow sample_ext row = Inr bob_actor \<and>
          getAndCache sample_ext (\<lambda>u. FetchFailed) sample_now bob_url (snd ?seq) =
            (Inr bob_actor, snd ?seq)"
    by blast
  from t none can ovl
  have b: "\<exists>row. filter (\<lambda>r. row_id r = bob_url) (actors (snd ?ovl)) = [row] \<and>
          actorFromRow sample_ext row = Inr bob_actor"
    by blast
  from rs a ro b show ?thesis by blast
qed

text \<open>
  Claim C1 as stated fails: two calls for Bob overlap on a store without his row. The
  first returns his actor; the second raises the uniqueness error of the \<^verbatim>\<open>INSERT\<close>
  instead of returning the persisted row.
\<close>

theorem getAndCache_insert_idempotent_counterexample:
  "getActorById sample_ext like_state bob_url = (Inr None, like_state) \<and>
   getAndCache_overlapping sample_ext sample_fetch sample_now sample_fetch
     ''2023-02-03T00:00:00.000Z'' bob_url like_state =
     ((Inr bob_actor, Inl (SqlError ''UNIQUE constraint failed: actors.id'')),
      bob_cached_state\<lparr>id_sequences :=
        [((''actors'', ''2023-02-03T00:00:00.000Z''), 1), ((''actors'', sample_now), 1)]\<rparr>) \<and>
   getAndCache_uncached sample_ext sample_fetch ''2023-02-03T00:00:00.000Z'' bob_url
     bob_cached_state =
     (Inl (SqlError ''UNIQUE constraint failed: actors.id''),
      bob_cached_state\<lparr>id_sequences :=
        [((''actors'', ''2023-02-03T00:00:00.000Z''), 1), ((''actors'', sample_now), 1)]\<rparr>)"
  by code_simp

section \<open>Actor Cache: a failed resolution leaves the cache alone\<close>

text \<open>
  Claim C5. When \<open>u\<close> is not cached, so that \<^verbatim>\<open>getAndCache\<close> goes to the remote
  server, and the fetch fails (no response, a status outside 200 to 299, a body that is
  not JSON) or the document has no identifier or no type, \<^verbatim>\<open>getAndCache\<close> raises an
  error and the store is exactly what it was: no actor row and no peer row is inserted.
\<close>

theorem getAndCache_failure_keeps_cache:
  assumes "filter (\<lambda>r. row_id r = u) (actors s) = []"
    and "case fetch u of
           FetchFailed \<Rightarrow> True
         | Response status body \<Rightarrow>
             \<not> res_ok status \<or>
             (case body of None \<Rightarrow> True | Some d \<Rightarrow> doc_id d = None \<or> \<not> truthy (doc_type d))"
  shows "\<exists>e. getAndCache x fetch now u s = (Inl e, s)"
proof (cases "fetchActor x fetch u")
  case (Inl e)
  then show ?thesis using getAndCache_miss [OF assms(1), of x fetch now] by simp
next
  case (Inr a)
  then obtain status d i where f: "fetch u = Response status (Some d)" and "doc_id d = Some i"
    using fetchActor_id by blast
  moreover have "res_ok status" using Inr f by (auto simp: fetchActor_def split: if_splits)
  ultimately have "\<not> truthy (doc_type d)" using assms(2) by simp
  then have "\<not> truthy (doc_type a)" using fetchActor_type [OF Inr f] by simp
  then show ?thesis using getAndCache_miss [OF assms(1), of x fetch now] Inr by simp
qed

text \<open>
  Bob is not cached; his server answers 404, or serves his document without a type, or
  without an identifier.
\<close>

theorem getAndCache_failure_keeps_cache_witness:
  "(\<exists>e. getAndCache sample_ext (\<lambda>u. Response 404 None) sample_now bob_url like_state =
           (Inl e, like_state)) \<and>
   (\<exists>e. getAndCache sample_ext (\<lambda>u. Response 200 (Some (bob_doc\<lparr>doc_type := None\<rparr>)))
           sample_now bob_url like_state = (Inl e, like_state)) \<and>
   (\<exists>e. getAndCache sample_ext (\<lambda>u. Response 200 (Some (bob_doc\<lparr>doc_id := None\<rparr>)))
           sample_now bob_url like_state = (Inl e, like_state))"
proof -
  have miss: "filter (\<lambda>r. row_id r = bob_url) (actors like_state) = []"
    by (simp add: sample_defs)
  have 1: "case (\<lambda>u. Response 404 None) bob_url of
           FetchFailed \<Rightarrow> True
         | Response status body \<Rightarrow>
             \<not> res_ok status \<or>
             (case body of None \<Rightarrow> True | Some d \<Rightarrow> doc_id d = None \<or> \<not> truthy (doc_type d))"
    by (simp add: res_ok_def)
  have 2: "case (\<lambda>u. Response 200 (Some (bob_doc\<lparr>doc_type := None\<rparr>))) bob_url of
           FetchFailed \<Rightarrow> True
         | Response status body \<Rightarrow>
             \<not> res_ok status \<or>
             (case body of None \<Rightarrow> True | Some d \<Rightarrow> doc_id d = None \<or> \<not> truthy (doc_type d))"
    by (simp add: truthy_def)
  have 3: "case (\<lambda>u. Response 200 (Some (bob_doc\<lparr>doc_id := None\<rparr>))) bob_url of
           FetchFailed \<Rightarrow> True
         | Response status body \<Rightarrow>
             \<not> res_ok status \<or>
             (case body of None \<Rightarrow> True | Some d \<Rightarrow> doc_id d = None \<or> \<not> truthy (doc_type d))"
    by simp
  show ?thesis
    using getAndCache_failure_keeps_cache [OF miss 1]
      getAndCache_failure_keeps_cache [OF miss 2] getAndCache_failure_keeps_cache [OF miss 3]
    by blast
qed

section \<open>Activity Dispatcher: Like activities\<close>

lemma like_resolves_frame:
  assumes "like_resolves x fetch now activity s ob fromActor targetActor s2"
  shows "actor_notifications s2 = actor_notifications s"
    and "actor_favourites s2 = actor_favourites s"
    and "objects s2 = objects s"
    and "console s2 = console s"
    and "cached x s2 (the (new_URL x (the (obj_originalActorId ob)))) targetActor"
    and "canonical x fetch (act_actor activity) \<Longrightarrow> cached x s2 (act_actor activity) fromActor"
proof -
  obtain r1 s1 where g: "getAndCache x fetch now (act_actor activity) s = (r1, s1)" by fastforce
  obtain t where t: "new_URL x (the (obj_originalActorId ob)) = Some t"
    using assms by (auto simp: like_resolves_def split: option.splits)
  have r1: "r1 = Inr fromActor" and ta: "getActorById x s1 t = (Inr (Some targetActor), s2)"
    using assms g t by (simp_all add: like_resolves_def)
  note f1 = getAndCache_actors [OF g] and f2 = getActorById_frame [OF ta]
  show "actor_notifications s2 = actor_notifications s" using f1 f2 by simp
  show "actor_favourites s2 = actor_favourites s" using f1 f2 by simp
  show "objects s2 = objects s" using f1 f2 by simp
  show "console s2 = console s" using f1 f2 by simp
  show "cached x s2 (the (new_URL x (the (obj_originalActorId ob)))) targetActor"
    using getActorById_after [OF ta] t by simp
  show "cached x s2 (act_actor activity) fromActor" if "canonical x fetch (act_actor activity)"
    using getActorById_keeps_cached [OF getAndCache_after [OF g [unfolded r1] that] ta] .
qed

lemma sample_like_resolves:
  "like_resolves sample_ext sample_fetch sample_now sample_like like_state
     sample_note bob_actor alice_actor bob_cached_state"
  by code_simp

text \<open>
  Claim C4. When the object a Like activity refers to is not in the object cache, or is
  cached without a known original author, \<^verbatim>\<open>handleLikeActivity\<close> returns normally, and
  the only thing it does is to log the warning \<^verbatim>\<open>unknown object\<close>: the store, with its
  Like edges and notifications, is unchanged.
\<close>

theorem handleLikeActivity_unknown_object:
  assumes "case getObjectById s (act_object activity) of
             None \<Rightarrow> True
           | Some ob \<Rightarrow> \<not> truthy (obj_originalActorId ob)"
  shows "handleLikeActivity x fetch now push activity s =
           (Inr (), s\<lparr>console := console s @ [''unknown object'']\<rparr>)"
  using assms
  by (cases "getObjectById s (act_object activity)")
     (simp_all add: handleLikeActivity_def warn_def)

text \<open>Bob likes an object that was never cached.\<close>

theorem handleLikeActivity_unknown_object_witness:
  "handleLikeActivity sample_ext sample_fetch sample_now True
     \<lparr>act_actor = bob_url, act_object = ''https://gone.example/o/404''\<rparr> like_state =
     (Inr (), like_state\<lparr>console := [''unknown object'']\<rparr>)"
proof -
  have "case getObjectById like_state
               (act_object \<lparr>act_actor = bob_url, act_object = ''https://gone.example/o/404''\<rparr>) of
          None \<Rightarrow> True
        | Some ob \<Rightarrow> \<not> truthy (obj_originalActorId ob)"
    by (simp add: getObjectById_def sample_defs)
  from handleLikeActivity_unknown_object [OF this, of sample_ext sample_fetch sample_now True]
  show ?thesis by (simp add: like_state_def empty_state_def)
qed

text \<open>
  Claim C3. Let the object of a Like activity be cached with the original author \<open>t\<close>
  (the stored identifier, as a URL in normal form). Whatever \<^verbatim>\<open>handleLikeActivity\<close>
  returns, it has created no notification, or exactly one, and that one is addressed to
  \<open>t\<close>: never to another actor, such as one that relayed the object or delivered the
  Like.
\<close>

theorem like_notification_to_original_author:
  assumes "handleLikeActivity x fetch now push activity s = (r, s')"
    and "getObjectById s (act_object activity) = Some ob"
    and "new_URL x (the (obj_originalActorId ob)) = Some t"
    and "new_URL x t = Some t"
  shows "actor_notifications s' = actor_notifications s \<or>
         (\<exists>n. actor_notifications s' = actor_notifications s @ [n] \<and>
              notif_actor_id n = t \<and> (\<forall>relay. relay \<noteq> t \<longrightarrow> notif_actor_id n \<noteq> relay))"
proof (cases "\<exists>ob fromActor targetActor s2.
                like_resolves x fetch now activity s ob fromActor targetActor s2")
  case False
  then show ?thesis using handleLikeActivity_rejected [OF assms(1)] by simp
next
  case True
  then obtain ob' fromActor targetActor s2
    where lr: "like_resolves x fetch now activity s ob' fromActor targetActor s2" by blast
  then have ob': "ob' = ob" using assms(2) by (simp add: like_resolves_def)
  from handleLikeActivity_applied [OF lr, of push] assms(1)
  have n: "actor_notifications s' =
             actor_notifications s2 @ [like_notification s2 targetActor fromActor ob]"
    by (auto simp: ob')
  have "cached x s2 t targetActor" using like_resolves_frame(5) [OF lr] assms(3) ob' by simp
  then have "a_id targetActor = t" using cached_id assms(4) by fastforce
  then have "notif_actor_id (like_notification s2 targetActor fromActor ob) = t"
    by (simp add: like_notification_def)
  then show ?thesis using n like_resolves_frame(1) [OF lr] by auto
qed

text \<open>Bob, a remote actor, delivers a Like of Alice's note: the notification goes to Alice.\<close>

theorem like_notification_to_original_author_witness:
  "actor_notifications
     (snd (handleLikeActivity sample_ext sample_fetch sample_now True sample_like like_state)) =
     [sample_notification 1] \<and>
   notif_actor_id (sample_notification 1) = alice_url \<and> alice_url \<noteq> bob_url"
proof -
  have 1: "getObjectById like_state (act_object sample_like) = Some sample_note"
    by (simp add: getObjectById_def sample_defs)
  have 2: "new_URL sample_ext (the (obj_originalActorId sample_note)) = Some alice_url"
    by (simp add: sample_defs)
  have 3: "new_URL sample_ext alice_url = Some alice_url"
    by (simp add: sample_defs)
  have 4: "actor_notifications
     (snd (handleLikeActivity sample_ext sample_fetch sample_now True sample_like like_state)) =
     [sample_notification 1]"
    by code_simp
  have 5: "alice_url \<noteq> bob_url" by (simp add: sample_defs)
  from like_notification_to_original_author [OF surjective_pairing 1 2 3] 4 5
  show ?thesis by (simp add: sample_notification_def)
qed

text \<open>
  Claim C7. Take a Like activity that gets past validation. With a push transport that
  fails, \<^verbatim>\<open>handleLikeActivity\<close> still returns normally, the notification row it created
  is in the store, and the stored tables are the ones the same call leaves when the push
  succeeds: the only difference is the logged delivery failure.
\<close>

theorem push_failure_not_propagated:
  assumes "like_resolves x fetch now activity s ob fromActor targetActor s2"
  shows "\<exists>s' s''. handleLikeActivity x fetch now False activity s = (Inr (), s') \<and>
           handleLikeActivity x fetch now True activity s = (Inr (), s'') \<and>
           actor_notifications s' =
             actor_notifications s @ [like_notification s targetActor fromActor ob] \<and>
           actor_notifications s' = actor_notifications s'' \<and>
           actor_favourites s' = actor_favourites s'' \<and>
           like_edge fromActor ob \<in> set (actor_favourites s') \<and>
           actors s' = actors s'' \<and> peers s' = peers s'' \<and> objects s' = objects s'' \<and>
           console s' = console s'' @ [''failed to send push notification'']"
proof -
  from handleLikeActivity_applied [OF assms, of False] obtain s'
    where 1: "handleLikeActivity x fetch now False activity s = (Inr (), s')"
      "actors s' = actors s2" "objects s' = objects s2" "peers s' = peers s2"
      "actor_notifications s' =
         actor_notifications s2 @ [like_notification s2 targetActor fromActor ob]"
      "actor_favourites s' =
         (if like_edge fromActor ob \<in> set (actor_favourites s2) then actor_favourites s2
          else actor_favourites s2 @ [like_edge fromActor ob])"
      "console s' = console s2 @ [''failed to send push notification'']"
    by auto
  from handleLikeActivity_applied [OF assms, of True] obtain s''
    where 2: "handleLikeActivity x fetch now True activity s = (Inr (), s'')"
      "actors s'' = actors s2" "objects s'' = objects s2" "peers s'' = peers s2"
      "actor_notifications s'' =
         actor_notifications s2 @ [like_notification s2 targetActor fromActor ob]"
      "actor_favourites s'' =
         (if like_edge fromActor ob \<in> set (actor_favourites s2) then actor_favourites s2
          else actor_favourites s2 @ [like_edge fromActor ob])"
      "console s'' = console s2"
    by auto
  have "like_notification s2 targetActor fromActor ob = like_notification s targetActor fromActor ob"
    using like_resolves_frame(1) [OF assms] by (simp add: like_notification_def)
  then show ?thesis using 1 2 like_resolves_frame(1) [OF assms] by auto
qed

text \<open>Bob's Like of Alice's note while the push transport is down.\<close>

theorem push_failure_not_propagated_witness:
  "handleLikeActivity sample_ext sample_fetch sample_now False sample_like like_state =
     (Inr (), liked_state\<lparr>console := [''failed to send push notification'']\<rparr>) \<and>
   handleLikeActivity sample_ext sample_fetch sample_now True sample_like like_state =
     (Inr (), liked_state) \<and>
   actor_notifications liked_state = [sample_notification 1]"
proof -
  from push_failure_not_propagated [OF sample_like_resolves]
  obtain s' s'' where
    "handleLikeActivity sample_ext sample_fetch sample_now False sample_like like_state = (Inr (), s')"
    "handleLikeActivity sample_ext sample_fetch sample_now True sample_like like_state = (Inr (), s'')"
    by blast
  moreover have "snd (handleLikeActivity sample_ext sample_fetch sample_now False sample_like like_state)
      = liked_state\<lparr>console := [''failed to send push notification'']\<rparr>"
    by code_simp
  moreover have "snd (handleLikeActivity sample_ext sample_fetch sample_now True sample_like like_state)
      = liked_state"
    by code_simp
  moreover have "actor_notifications liked_state = [sample_notification 1]"
    by (simp add: liked_state_def)
  ultimately show ?thesis by simp
qed

text \<open>
  Claim C6, as amended. For a Like activity that gets past validation,
  \<^verbatim>\<open>handleLikeActivity\<close> starts the notification and the Like edge together
  (\<^verbatim>\<open>Promise.all\<close>) and puts no order between them: the handler runs to the same
  result whether the store completes the notification row first or the Like edge first,
  with the same notification row and the same edge either way. The push request is
  issued after both, in either order.
\<close>

theorem like_writes_unordered:
  assumes "like_resolves x fetch now activity s ob fromActor targetActor s2"
  shows "\<exists>s'. handleLikeActivity_in_order notification_first x fetch now push activity s =
             (Inr (), s') \<and>
           journal s' =
             journal s2 @
               (if notification_first
                then [InsertNotification (Suc (length (actor_notifications s))),
                      InsertLike (a_id fromActor) (obj_id ob)]
                else [InsertLike (a_id fromActor) (obj_id ob),
                      InsertNotification (Suc (length (actor_notifications s)))]) @
               [PushRequest (Suc (length (actor_notifications s)))] \<and>
           actor_notifications s' =
             actor_notifications s @ [like_notification s targetActor fromActor ob] \<and>
           actor_favourites s' =
             (if like_edge fromActor ob \<in> set (actor_favourites s) then actor_favourites s
              else actor_favourites s @ [like_edge fromActor ob])"
proof -
  have "like_notification s2 targetActor fromActor ob = like_notification s targetActor fromActor ob"
    using like_resolves_frame(1) [OF assms] by (simp add: like_notification_def)
  then show ?thesis
    using handleLikeActivity_in_order_applied [OF assms, of notification_first push]
      like_resolves_frame(1,2) [OF assms]
    by auto
qed

text \<open>Bob's Like of Alice's note, with the two writes completed in either order.\<close>

theorem like_writes_unordered_witness:
  "journal (snd (handleLikeActivity_in_order True sample_ext sample_fetch sample_now True
                   sample_like like_state)) =
     journal bob_cached_state @
       [InsertNotification 1, InsertLike bob_url note_url, PushRequest 1] \<and>
   journal (snd (handleLikeActivity_in_order False sample_ext sample_fetch sample_now True
                   sample_like like_state)) =
     journal bob_cached_state @
       [InsertLike bob_url note_url, InsertNotification 1, PushRequest 1] \<and>
   actor_notifications (snd (handleLikeActivity_in_order False sample_ext sample_fetch
                               sample_now True sample_like like_state)) =
     actor_notifications (snd (handleLikeActivity_in_order True sample_ext sample_fetch
                                 sample_now True sample_like like_state)) \<and>
   actor_favourites (snd (handleLikeActivity_in_order False sample_ext sample_fetch
                            sample_now True sample_like like_state)) =
     actor_favourites (snd (handleLikeActivity_in_order True sample_ext sample_fetch
                              sample_now True sample_like like_state))"
proof -
  from like_writes_unordered [OF sample_like_resolves, of True True]
  obtain s' where 1:
    "handleLikeActivity_in_order True sample_ext sample_fetch sample_now True sample_like
       like_state = (Inr (), s')"
    "journal s' = journal bob_cached_state @
       [InsertNotification (Suc (length (actor_notifications like_state))),
        InsertLike (a_id bob_actor) (obj_id sample_note),
        PushRequest (Suc (length (actor_notifications like_state)))]"
    "actor_notifications s' =
       actor_notifications like_state @ [like_notification like_state alice_actor bob_actor sample_note]"
    "actor_favourites s' =
       (if like_edge bob_actor sample_note \<in> set (actor_favourites like_state)
        then actor_favourites like_state
        else actor_favourites like_state @ [like_edge bob_actor sample_note])"
    by auto
  from like_writes_unordered [OF sample_like_resolves, of False True]
  obtain s'' where 2:
    "handleLikeActivity_in_order False sample_ext sample_fetch sample_now True sample_like
       like_state = (Inr (), s'')"
    "journal s'' = journal bob_cached_state @
       [InsertLike (a_id bob_actor) (obj_id sample_note),
        InsertNotification (Suc (length (actor_notifications like_state))),
        PushRequest (Suc (length (actor_notifications like_state)))]"
    "actor_notifications s'' =
       actor_notifications like_state @ [like_notification like_state alice_actor bob_actor sample_note]"
    "actor_favourites s'' =
       (if like_edge bob_actor sample_note \<in> set (actor_favourites like_state)
        then actor_favourites like_state
        else actor_favourites like_state @ [like_edge bob_actor sample_note])"
    by auto
  from 1 2 show ?thesis
    by (simp add: like_state_def empty_state_def bob_actor_def sample_note_def)
qed

text \<open>
  Claim C6 as stated fails: \<^verbatim>\<open>handleLikeActivity\<close> has a run, the one in which the store
  completes the two statements in the order they were started, where both writes happen
  and the notification is written before the Like edge, not after it.
\<close>

theorem like_edge_before_notification_counterexample:
  "InsertLike bob_url note_url \<in> set (journal (snd
      (handleLikeActivity sample_ext sample_fetch sample_now True sample_like like_state))) \<and>
   InsertNotification 1 \<in> set (journal (snd
      (handleLikeActivity sample_ext sample_fetch sample_now True sample_like like_state))) \<and>
   \<not> precedes (InsertLike bob_url note_url) (InsertNotification 1) (journal (snd
      (handleLikeActivity sample_ext sample_fetch sample_now True sample_like like_state))) \<and>
   precedes (InsertNotification 1) (InsertLike bob_url note_url) (journal (snd
      (handleLikeActivity sample_ext sample_fetch sample_now True sample_like like_state)))"
  by code_simp

section \<open>Remote Fetcher: length limits\<close>

text \<open>
  Claim C8. In every actor document \<^verbatim>\<open>fetchActor\<close> returns, the summary has at most 500
  characters, the name at most 30 and the preferred username at most 30. A non-empty
  summary is the first 500 characters of its sanitized text, a non-empty name or username
  the first 30 of its text content: sanitized text of 600 characters becomes 500, a
  username of 40 becomes 30.
\<close>

theorem fetchActor_clamps_fields:
  assumes "fetchActor x fetch u = Inr a" and "fetch u = Response status (Some d)"
  shows "(case doc_summary a of None \<Rightarrow> True | Some s \<Rightarrow> length s \<le> 500) \<and>
         (case doc_name a of None \<Rightarrow> True | Some s \<Rightarrow> length s \<le> 30) \<and>
         (case doc_preferredUsername a of None \<Rightarrow> True | Some s \<Rightarrow> length s \<le> 30) \<and>
         (\<forall>raw. doc_summary d = Some raw \<and> raw \<noteq> [] \<longrightarrow>
            doc_summary a = Some (take 500 (sanitizeContent x raw))) \<and>
         (\<forall>raw. doc_name d = Some raw \<and> raw \<noteq> [] \<longrightarrow>
            doc_name a = Some (take 30 (getTextContent x raw))) \<and>
         (\<forall>raw. doc_preferredUsername d = Some raw \<and> raw \<noteq> [] \<longrightarrow>
            doc_preferredUsername a = Some (take 30 (getTextContent x raw)))"
proof -
  note s = fetchActor_summary [OF assms] and n = fetchActor_name [OF assms]
    and p = fetchActor_preferredUsername [OF assms]
  have 1: "case doc_summary a of None \<Rightarrow> True | Some s \<Rightarrow> length s \<le> 500"
    using s falsy_length [of "doc_summary d" 500] by (cases "truthy (doc_summary d)") simp_all
  have 2: "case doc_name a of None \<Rightarrow> True | Some s \<Rightarrow> length s \<le> 30"
    using n falsy_length [of "doc_name d" 30] by (cases "truthy (doc_name d)") simp_all
  have 3: "case doc_preferredUsername a of None \<Rightarrow> True | Some s \<Rightarrow> length s \<le> 30"
    using p falsy_length [of "doc_preferredUsername d" 30]
    by (cases "truthy (doc_preferredUsername d)") simp_all
  have 4: "\<forall>raw. doc_summary d = Some raw \<and> raw \<noteq> [] \<longrightarrow>
            doc_summary a = Some (take 500 (sanitizeContent x raw))"
    using s by (simp add: truthy_def)
  have 5: "\<forall>raw. doc_name d = Some raw \<and> raw \<noteq> [] \<longrightarrow>
            doc_name a = Some (take 30 (getTextContent x raw))"
    using n by (simp add: truthy_def)
  have 6: "\<forall>raw. doc_preferredUsername d = Some raw \<and> raw \<noteq> [] \<longrightarrow>
            doc_preferredUsername a = Some (take 30 (getTextContent x raw))"
    using p by (simp add: truthy_def)
  from 1 2 3 4 5 6 show ?thesis by blast
qed

lemma fetchActor_long_doc:
  "fetchActor sample_ext (\<lambda>u. Response 200 (Some long_doc)) bob_url =
     Inr (long_doc\<lparr>doc_summary := Some (replicate 500 (CHR ''s'')),
                  doc_name := Some (replicate 30 (CHR ''n'')),
                  doc_preferredUsername := Some (replicate 30 (CHR ''u''))\<rparr>)"
  by (simp add: fetchActor_def sample_ext_def long_doc_def empty_doc_def res_ok_def truthy_def
      opt_URL_def Let_def bob_url_def)

text \<open>A summary of 600 characters, a name of 31 and a username of 40, all plain text.\<close>

theorem fetchActor_clamps_fields_witness:
  "\<exists>a. fetchActor sample_ext (\<lambda>u. Response 200 (Some long_doc)) bob_url = Inr a \<and>
        doc_summary a = Some (take 500 (replicate 600 (CHR ''s''))) \<and>
        doc_name a = Some (take 30 (replicate 31 (CHR ''n''))) \<and>
        doc_preferredUsername a = Some (take 30 (replicate 40 (CHR ''u''))) \<and>
        map_option length (doc_summary a) = Some 500 \<and>
        map_option length (doc_preferredUsername a) = Some 30"
proof -
  let ?a = "long_doc\<lparr>doc_summary := Some (replicate 500 (CHR ''s'')),
                  doc_name := Some (replicate 30 (CHR ''n'')),
                  doc_preferredUsername := Some (replicate 30 (CHR ''u''))\<rparr>"
  note c = fetchActor_clamps_fields [OF fetchActor_long_doc refl]
  have "doc_summary ?a = Some (take 500 (sanitizeContent sample_ext (replicate 600 (CHR ''s''))))"
    using c by (simp add: long_doc_def)
  moreover have "doc_name ?a = Some (take 30 (getTextContent sample_ext (replicate 31 (CHR ''n''))))"
    using c by (simp add: long_doc_def)
  moreover have "doc_preferredUsername ?a =
      Some (take 30 (getTextContent sample_ext (replicate 40 (CHR ''u''))))"
    using c by (simp add: long_doc_def)
  ultimately show ?thesis using fetchActor_long_doc by (simp add: sample_ext_def)
qed

section \<open>Actors: protocol endpoints\<close>

lemma getActorById_from_row:
  assumes "getActorById x s i = (Inr (Some a), s1)"
  shows "\<exists>row. actorFromRow x row = Inr a"
  using getActorById_after [OF assms] by (auto simp: cached_def split: list.splits)

lemma getPersonByEmail_from_row:
  assumes "getPersonByEmail x s email = (Inr (Some a), s1)"
  shows "\<exists>row. actorFromRow x row = Inr a"
proof (cases "filter (\<lambda>r. row_email r = Some email \<and> row_type r = PERSON) (actors s)")
  case Nil
  then show ?thesis using assms by (simp add: getPersonByEmail_def)
next
  case (Cons r rest)
  show ?thesis
  proof (cases "row_mastodon_id r")
    case None
    obtain m s0 where sm: "setMastodonId s (row_id r) (row_cdate r) = (m, s0)" by fastforce
    have "map_sum id Some (actorFromRow x (r\<lparr>row_mastodon_id := Some m\<rparr>)) = Inr (Some a)"
      using assms Cons None sm by (simp add: getPersonByEmail_def)
    then have "actorFromRow x (r\<lparr>row_mastodon_id := Some m\<rparr>) = Inr a"
      by (cases "actorFromRow x (r\<lparr>row_mastodon_id := Some m\<rparr>)") auto
    then show ?thesis by blast
  next
    case (Some m)
    have "map_sum id Some (actorFromRow x r) = Inr (Some a)"
      using assms Cons Some by (simp add: getPersonByEmail_def)
    then have "actorFromRow x r = Inr a" by (cases "actorFromRow x r") auto
    then show ?thesis by blast
  qed
qed

lemma getAndCache_from_row:
  assumes "getAndCache x fetch now u s = (Inr a, s1)"
  shows "\<exists>row. actorFromRow x row = Inr a"
proof (cases "filter (\<lambda>r. row_id r = u) (actors s) = []")
  case False
  have "getActorById x s u = (Inr (Some a), s1)"
    using getAndCache_found [OF False, of x fetch now] assms
    by (auto split: prod.splits sum.splits option.splits)
  then show ?thesis by (rule getActorById_from_row)
next
  case True
  then show ?thesis using getAndCache_actors [OF assms] by auto
qed

lemma actorFromRow_endpoints_defined:
  assumes "actorFromRow x row = Inr a"
  shows "endpoints_defined a"
  using actorFromRow_fields [OF assms] by (simp add: endpoints_defined_def)

text \<open>
  Claim C10. Every actor \<^verbatim>\<open>actorFromRow\<close> produces has its four endpoints defined: each
  is the one stored in the row's properties or, where the properties omit it, the actor's
  identifier followed by \<^verbatim>\<open>/inbox\<close>, \<^verbatim>\<open>/outbox\<close>, \<^verbatim>\<open>/following\<close> or \<^verbatim>\<open>/followers\<close>.
  The actors returned by \<^verbatim>\<open>getActorById\<close>, \<^verbatim>\<open>getPersonByEmail\<close> and \<^verbatim>\<open>getAndCache\<close>
  are produced by \<^verbatim>\<open>actorFromRow\<close>, so their endpoints are defined too.
\<close>

theorem actor_endpoints_defaulted:
  "(actorFromRow x row = Inr a \<longrightarrow>
      endpoints_defined a \<and>
      a_inbox a = Some (case doc_inbox (row_properties row) of
                          None \<Rightarrow> a_id a @ ''/inbox'' | Some v \<Rightarrow> v) \<and>
      a_outbox a = Some (case doc_outbox (row_properties row) of
                           None \<Rightarrow> a_id a @ ''/outbox'' | Some v \<Rightarrow> v) \<and>
      a_following a = Some (case doc_following (row_properties row) of
                              None \<Rightarrow> a_id a @ ''/following'' | Some v \<Rightarrow> v) \<and>
      a_followers a = Some (case doc_followers (row_properties row) of
                              None \<Rightarrow> a_id a @ ''/followers'' | Some v \<Rightarrow> v)) \<and>
   (getActorById x s i = (Inr (Some b), s1) \<longrightarrow>
      endpoints_defined b \<and> (\<exists>r. actorFromRow x r = Inr b)) \<and>
   (getPersonByEmail x s email = (Inr (Some c), s2) \<longrightarrow>
      endpoints_defined c \<and> (\<exists>r. actorFromRow x r = Inr c)) \<and>
   (getAndCache x fetch now u s = (Inr d, s3) \<longrightarrow>
      endpoints_defined d \<and> (\<exists>r. actorFromRow x r = Inr d))"
proof -
  have 1: "endpoints_defined a \<and>
      a_inbox a = Some (case doc_inbox (row_properties row) of
                          None \<Rightarrow> a_id a @ ''/inbox'' | Some v \<Rightarrow> v) \<and>
      a_outbox a = Some (case doc_outbox (row_properties row) of
                           None \<Rightarrow> a_id a @ ''/outbox'' | Some v \<Rightarrow> v) \<and>
      a_following a = Some (case doc_following (row_properties row) of
                              None \<Rightarrow> a_id a @ ''/following'' | Some v \<Rightarrow> v) \<and>
      a_followers a = Some (case doc_followers (row_properties row) of
                              None \<Rightarrow> a_id a @ ''/followers'' | Some v \<Rightarrow> v)"
    if "actorFromRow x row = Inr a"
    using actorFromRow_fields [OF that] actorFromRow_endpoints_defined [OF that] by simp
  have 2: "endpoints_defined b \<and> (\<exists>r. actorFromRow x r = Inr b)"
    if "getActorById x s i = (Inr (Some b), s1)"
    using getActorById_from_row [OF that] actorFromRow_endpoints_defined by blast
  have 3: "endpoints_defined c \<and> (\<exists>r. actorFromRow x r = Inr c)"
    if "getPersonByEmail x s email = (Inr (Some c), s2)"
    using getPersonByEmail_from_row [OF that] actorFromRow_endpoints_defined by blast
  have 4: "endpoints_defined d \<and> (\<exists>r. actorFromRow x r = Inr d)"
    if "getAndCache x fetch now u s = (Inr d, s3)"
    using getAndCache_from_row [OF that] actorFromRow_endpoints_defined by blast
  from 1 2 3 4 show ?thesis by blast
qed

text \<open>
  Alice's row stores no endpoint, and every look-up of her returns the actor with the four
  defaults; Bob's, inserted by \<^verbatim>\<open>getAndCache\<close>, likewise.
\<close>

theorem actor_endpoints_defaulted_witness:
  "actorFromRow sample_ext alice_row = Inr alice_actor \<and>
   getActorById sample_ext like_state alice_url = (Inr (Some alice_actor), like_state) \<and>
   getPersonByEmail sample_ext like_state ''alice@social.example'' =
     (Inr (Some alice_actor), like_state) \<and>
   fst (getAndCache sample_ext sample_fetch sample_now bob_url like_state) = Inr bob_actor \<and>
   endpoints_defined alice_actor \<and> endpoints_defined bob_actor \<and>
   a_inbox alice_actor = Some (alice_url @ ''/inbox'') \<and>
   a_outbox alice_actor = Some (alice_url @ ''/outbox'') \<and>
   a_following alice_actor = Some (alice_url @ ''/following'') \<and>
   a_followers alice_actor = Some (alice_url @ ''/followers'')"
proof -
  have 1: "actorFromRow sample_ext alice_row = Inr alice_actor" by code_simp
  have 2: "getActorById sample_ext like_state alice_url = (Inr (Some alice_actor), like_state)"
    by code_simp
  have 3: "getPersonByEmail sample_ext like_state ''alice@social.example'' =
     (Inr (Some alice_actor), like_state)"
    by code_simp
  have 4: "getAndCache sample_ext sample_fetch sample_now bob_url like_state =
     (Inr bob_actor, bob_cached_state)"
    by code_simp
  note t = actor_endpoints_defaulted [of sample_ext alice_row alice_actor like_state alice_url
      alice_actor like_state "''alice@social.example''" alice_actor like_state
      sample_fetch sample_now bob_url bob_actor bob_cached_state]
  have "endpoints_defined alice_actor \<and> endpoints_defined bob_actor \<and>
        a_inbox alice_actor = Some (alice_url @ ''/inbox'') \<and>
        a_outbox alice_actor = Some (alice_url @ ''/outbox'') \<and>
        a_following alice_actor = Some (alice_url @ ''/following'') \<and>
        a_followers alice_actor = Some (alice_url @ ''/followers'')"
    using t 1 2 3 4 by (simp add: alice_row_def empty_doc_def alice_actor_def)
  then show ?thesis using 1 2 3 4 by simp
qed

section \<open>Collection Paginator: page sizes\<close>

lemma schema_integer:
  assumes "1 \<le> n" and "n \<le> 80"
  shows "schema (JNumber (of_int n)) = Some n"
  using assms by (simp add: schema_def)

lemma schema_rejects:
  assumes "r \<noteq> of_int \<lfloor>r\<rfloor> \<or> r < 1 \<or> 80 < r"
  shows "schema (JNumber r) = None"
  using assms by (auto simp: schema_def)

text \<open>
  Claim C9, as amended. Neither endpoint clamps the page size to 80.

  \<^item> The followers endpoint validates it: a missing \<^verbatim>\<open>limit\<close> is 40; an integer from 1 to
    80 is handed on as it is; every other number (a fraction, a number below 1, a number
    above 80) and every value that is not a number makes the request fail with
    \<^verbatim>\<open>failed to read params\<close>.
  \<^item> The statuses endpoint takes as its page size the absolute value of what
    \<^verbatim>\<open>Number.parseInt\<close> returns for \<^verbatim>\<open>limit\<close>, however large, an infinity included, and
    20 when that is \<^verbatim>\<open>NaN\<close> or 0; a missing \<^verbatim>\<open>limit\<close> is read as the string \<^verbatim>\<open>0\<close>. No
    maximum is applied.
\<close>

theorem page_size_validated_not_clamped:
  "onRequestGet getFollowerIds JUndefined = Inr (getFollowerIds 40) \<and>
   (1 \<le> n \<and> n \<le> 80 \<longrightarrow>
      onRequestGet getFollowerIds (JNumber (of_int n)) = Inr (getFollowerIds n)) \<and>
   (r \<noteq> of_int \<lfloor>r\<rfloor> \<or> r < 1 \<or> 80 < r \<longrightarrow>
      onRequestGet getFollowerIds (JNumber r) = Inl ParamsError) \<and>
   onRequestGet getFollowerIds JOther = Inl ParamsError \<and>
   (parseInt q = Num m \<and> m \<noteq> 0 \<longrightarrow> handleRequest_limit parseInt (Some q) = Num \<bar>m\<bar>) \<and>
   (parseInt q = PosInfinity \<or> parseInt q = NegInfinity \<longrightarrow>
      handleRequest_limit parseInt (Some q) = PosInfinity) \<and>
   (parseInt q = NaN \<or> parseInt q = Num 0 \<longrightarrow>
      handleRequest_limit parseInt (Some q) = Num 20) \<and>
   handleRequest_limit parseInt None = handleRequest_limit parseInt (Some ''0'')"
proof -
  have 1: "onRequestGet getFollowerIds JUndefined = Inr (getFollowerIds 40)"
    by (simp add: onRequestGet_def schema_def)
  have 2: "onRequestGet getFollowerIds (JNumber (of_int n)) = Inr (getFollowerIds n)"
    if "1 \<le> n \<and> n \<le> 80"
    using that schema_integer [of n] by (simp add: onRequestGet_def)
  have 3: "onRequestGet getFollowerIds (JNumber r) = Inl ParamsError"
    if "r \<noteq> of_int \<lfloor>r\<rfloor> \<or> r < 1 \<or> 80 < r"
    using schema_rejects [OF that] by (simp add: onRequestGet_def)
  have 4: "onRequestGet getFollowerIds JOther = Inl ParamsError"
    by (simp add: onRequestGet_def schema_def)
  have 5: "handleRequest_limit parseInt (Some q) = Num \<bar>m\<bar>" if "parseInt q = Num m \<and> m \<noteq> 0"
    using that by (simp add: handleRequest_limit_def Math_abs_def)
  have 6: "handleRequest_limit parseInt (Some q) = PosInfinity"
    if "parseInt q = PosInfinity \<or> parseInt q = NegInfinity"
    using that by (auto simp: handleRequest_limit_def Math_abs_def)
  have 7: "handleRequest_limit parseInt (Some q) = Num 20"
    if "parseInt q = NaN \<or> parseInt q = Num 0"
    using that by (auto simp: handleRequest_limit_def Math_abs_def DEFAULT_LIMIT_def)
  have 8: "handleRequest_limit parseInt None = handleRequest_limit parseInt (Some ''0'')"
    by (simp add: handleRequest_limit_def)
  from 1 2 3 4 5 6 7 8 show ?thesis by blast
qed

text \<open>
  The followers endpoint hands 80 on and refuses 81 and 40.5; the statuses endpoint
  turns \<^verbatim>\<open>limit=-30\<close> into 30 and a \<^verbatim>\<open>limit\<close> that is not a number into 20.
\<close>

theorem page_size_validated_not_clamped_witness:
  "onRequestGet (\<lambda>l. take (nat l) (replicate 100 ''follower'')) (JNumber 80) =
     Inr (replicate 80 ''follower'') \<and>
   onRequestGet (\<lambda>l. take (nat l) (replicate 100 ''follower'')) (JNumber 81) =
     Inl ParamsError \<and>
   onRequestGet (\<lambda>l. take (nat l) (replicate 100 ''follower'')) (JNumber (81 / 2)) =
     Inl ParamsError \<and>
   handleRequest_limit sample_parseInt (Some ''-30'') = Num 30 \<and>
   handleRequest_limit sample_parseInt (Some ''many'') = Num 20 \<and>
   handleRequest_limit sample_parseInt None = Num 20"
proof -
  let ?gf = "\<lambda>l. take (nat l) (replicate 100 ''follower'') :: string list"
  note t1 = page_size_validated_not_clamped [of ?gf 80 81 sample_parseInt "''-30''" "- 30"]
  note t2 = page_size_validated_not_clamped [of ?gf 80 "81 / 2" sample_parseInt "''many''" 1]
  note t3 = page_size_validated_not_clamped [of ?gf 80 81 sample_parseInt "''0''" 1]
  have a: "onRequestGet ?gf (JNumber 80) = Inr (replicate 80 ''follower'')"
    using t1 by simp
  have b: "onRequestGet ?gf (JNumber 81) = Inl ParamsError"
    using t1 by simp
  have "\<lfloor>81 / 2 :: rat\<rfloor> = 40" by (simp add: floor_eq_iff)
  then have "(81 / 2 :: rat) \<noteq> of_int \<lfloor>81 / 2 :: rat\<rfloor>" by simp
  then have c: "onRequestGet ?gf (JNumber (81 / 2)) = Inl ParamsError"
    using t2 by blast
  have d: "handleRequest_limit sample_parseInt (Some ''-30'') = Num 30"
    using t1 by (simp add: sample_parseInt_def)
  have e: "handleRequest_limit sample_parseInt (Some ''many'') = Num 20"
    using t2 by (simp add: sample_parseInt_def)
  have f: "handleRequest_limit sample_parseInt None = Num 20"
    using t3 by (simp add: sample_parseInt_def)
  from a b c d e f show ?thesis by blast
qed

text \<open>
  Claim C9 as stated fails: with a page size of 100 the followers request fails instead of
  going on with 80, and the statuses request goes on with 100.
\<close>

theorem page_size_clamped_counterexample:
  "onRequestGet (\<lambda>l. take (nat l) (replicate 100 ''follower'')) (JNumber 100) =
     Inl ParamsError \<and>
   handleRequest_limit sample_parseInt (Some ''100'') = Num 100"
  by (simp add: onRequestGet_def schema_def handleRequest_limit_def Math_abs_def
      sample_parseInt_def)

end
